theory Spec2Isabelle
  imports Complex_Main
begin

section \<open>JavaScript built-ins taken as parameters\<close>

text \<open>
  Numbers are modelled as reals: every reading that occurs below is a finite number and
  every threshold (3.0, 35, 90, 6.5, 8.5, 85, 100, 0) is a binary fraction, so a comparison
  of doubles agrees with the comparison of the reals they denote.

  Where the API computes with numbers whose results are compared or sent on
  (\<open>simulateSensorData\<close>, \<open>getConsumptionAnalytics\<close>), the arithmetic of doubles is kept:
  every \<open>+\<close>, \<open>-\<close> and \<open>*\<close> is the real operation followed by the rounding \<open>fl env\<close> to
  the nearest double, and a decimal literal that is not a double (\<open>3.8\<close>, \<open>0.8\<close>) denotes
  its rounding. The rounding is a field of \<open>js_env\<close> like the other built-ins.

  The formatting built-ins (\<open>Number.prototype.toFixed\<close>, string interpolation of a
  number, \<open>Date.prototype.toLocaleString\<close>, \<open>Date.prototype.toISOString\<close>,
  \<open>String.prototype.toUpperCase\<close>) and the system clock are not code of the repository;
  they are the fields of \<open>js_env\<close>. \<open>clock env k\<close> is the epoch time observed by the
  \<open>k\<close>-th reading of the clock (\<open>Date.now()\<close> or \<open>new Date()\<close>) and \<open>random env k\<close>
  the result of the \<open>k\<close>-th call of \<open>Math.random()\<close>; functions that read them thread
  the number of readings made so far.

  Field names are the source's. Where a name is taken (by a HOL constant, an Isabelle
  keyword or an earlier record) it carries a suffix: \<open>_ui\<close> for the component's alert,
  \<open>_sr\<close> sensor reading, \<open>_c\<close> complaint, \<open>_mt\<close> maintenance task, \<open>_al\<close> alert row,
  \<open>_cu\<close>, \<open>_tu\<close>, \<open>_au\<close> the update objects.
\<close>

record js_env =
  toFixed :: "real \<Rightarrow> nat \<Rightarrow> string"
  numberToString :: "nat \<Rightarrow> string"
  toLocaleString :: "nat \<Rightarrow> string"
  toISOString :: "int \<Rightarrow> string"
  toUpperCase :: "string \<Rightarrow> string"
  clock :: "nat \<Rightarrow> nat"
  random :: "nat \<Rightarrow> real"
  fl :: "real \<Rightarrow> real"


section \<open>components/AlertSystem.tsx\<close>

record SensorData =
  waterFlow :: real
  pressure :: real
  quality :: real
  temperature :: real
  ph :: real
  turbidity :: real
  solarPumpStatus :: string

datatype alert_type = Critical | Warning | Info

text \<open>The component's own \<open>Alert\<close> interface; \<open>actions\<close> is optional.\<close>

record Alert =
  id_ui :: string
  type_ui :: alert_type
  title :: string
  description :: string
  timestamp :: string
  source :: string
  acknowledged :: bool
  resolved :: bool
  actions :: "string list option"

text \<open>
  The body of the \<open>useEffect\<close> hook up to the static alerts: four independent
  \<open>if\<close> statements, each pushing one alert. A block that runs reads the clock twice
  (\<open>Date.now()\<close> for the id, \<open>new Date()\<close> for the timestamp).
\<close>

definition newAlerts :: "js_env \<Rightarrow> nat \<Rightarrow> SensorData \<Rightarrow> Alert list \<times> nat" where
  "newAlerts env k0 sensorData =
    (let acc0 = ([], k0);
         acc1 = (case acc0 of (as, k) \<Rightarrow>
           if pressure sensorData < 3.0 then
             (as @ [\<lparr> id_ui = ''pressure-'' @ numberToString env (clock env k),
                      type_ui = Critical,
                      title = ''Low System Pressure Detected'',
                      description = ''Pressure has dropped to '' @ toFixed env (pressure sensorData) 1
                                    @ '' bar, below the critical threshold of 3.0 bar.'',
                      timestamp = toLocaleString env (clock env (k + 1)),
                      source = ''Pressure Sensor P1'',
                      acknowledged = False,
                      resolved = False,
                      actions = Some [''Check pump operation'', ''Inspect for leaks'',
                                      ''Contact maintenance team''] \<rparr>], k + 2)
           else (as, k));
         acc2 = (case acc1 of (as, k) \<Rightarrow>
           if waterFlow sensorData < 35 then
             (as @ [\<lparr> id_ui = ''flow-'' @ numberToString env (clock env k),
                      type_ui = Warning,
                      title = ''Low Water Flow Rate'',
                      description = ''Flow rate is '' @ toFixed env (waterFlow sensorData) 1
                                    @ '' L/min, below optimal range.'',
                      timestamp = toLocaleString env (clock env (k + 1)),
                      source = ''Flow Sensor F1'',
                      acknowledged = False,
                      resolved = False,
                      actions = Some [''Check filter condition'', ''Verify pump settings'',
                                      ''Inspect inlet valve''] \<rparr>], k + 2)
           else (as, k));
         acc3 = (case acc2 of (as, k) \<Rightarrow>
           if quality sensorData < 90 then
             (as @ [\<lparr> id_ui = ''quality-'' @ numberToString env (clock env k),
                      type_ui = Warning,
                      title = ''Water Quality Below Standard'',
                      description = ''Quality index is '' @ toFixed env (quality sensorData) 0
                                    @ ''%, below the recommended 90% threshold.'',
                      timestamp = toLocaleString env (clock env (k + 1)),
                      source = ''Quality Sensor Q1'',
                      acknowledged = False,
                      resolved = False,
                      actions = Some [''Test chlorine levels'', ''Check filtration system'',
                                      ''Schedule water sampling''] \<rparr>], k + 2)
           else (as, k));
         acc4 = (case acc3 of (as, k) \<Rightarrow>
           if ph sensorData < 6.5 \<or> ph sensorData > 8.5 then
             (as @ [\<lparr> id_ui = ''ph-'' @ numberToString env (clock env k),
                      type_ui = Warning,
                      title = ''pH Level Out of Range'',
                      description = ''pH level is '' @ toFixed env (ph sensorData) 1
                                    @ '', outside the safe range of 6.5-8.5.'',
                      timestamp = toLocaleString env (clock env (k + 1)),
                      source = ''pH Sensor'',
                      acknowledged = False,
                      resolved = False,
                      actions = Some [''Test pH manually'', ''Check sensor calibration'',
                                      ''Adjust treatment system''] \<rparr>], k + 2)
           else (as, k))
     in acc4)"

definition staticAlerts :: "Alert list" where
  "staticAlerts =
    [ \<lparr> id_ui = ''leak-001'',
        type_ui = Critical,
        title = ''Pipeline Leak Detected'',
        description = ''AI algorithms detected potential leak in Ward 3 distribution line based on pressure drop patterns.'',
        timestamp = ''2025-01-21 14:30:00'',
        source = ''ML Leak Detection'',
        acknowledged = False,
        resolved = False,
        actions = Some [''Dispatch field team'', ''Isolate affected section'',
                        ''Notify affected households''] \<rparr>,
      \<lparr> id_ui = ''maintenance-001'',
        type_ui = Info,
        title = ''Scheduled Maintenance Reminder'',
        description = ''Monthly tank cleaning is due for Main Storage Tank.'',
        timestamp = ''2025-01-21 12:00:00'',
        source = ''Maintenance Schedule'',
        acknowledged = True,
        resolved = False,
        actions = Some [''Schedule cleaning crew'', ''Notify supervisor'',
                        ''Prepare equipment''] \<rparr>,
      \<lparr> id_ui = ''consumption-001'',
        type_ui = Warning,
        title = ''Unusual Consumption Pattern'',
        description = ''Ward 2 showing 25% higher than average water consumption in the last 24 hours.'',
        timestamp = ''2025-01-21 10:15:00'',
        source = ''Consumption Analytics'',
        acknowledged = True,
        resolved = True,
        actions = Some [''Investigate cause'', ''Check for leaks'',
                        ''Contact ward representative''] \<rparr> ]"

text \<open>\<open>setAlerts([...newAlerts, ...staticAlerts])\<close>: the alert list the effect stores.\<close>

definition generateAlerts :: "js_env \<Rightarrow> nat \<Rightarrow> SensorData \<Rightarrow> Alert list" where
  "generateAlerts env k0 sensorData = fst (newAlerts env k0 sensorData) @ staticAlerts"

text \<open>The two click handlers; each returns the list handed to \<open>setAlerts\<close>.\<close>

definition acknowledgeAlert :: "Alert list \<Rightarrow> string \<Rightarrow> Alert list" where
  "acknowledgeAlert alerts alertId =
     map (\<lambda>alert. if id_ui alert = alertId then alert\<lparr>acknowledged := True\<rparr> else alert) alerts"

definition resolveAlert :: "Alert list \<Rightarrow> string \<Rightarrow> Alert list" where
  "resolveAlert alerts alertId =
     map (\<lambda>alert. if id_ui alert = alertId
                   then alert\<lparr>resolved := True, acknowledged := True\<rparr> else alert) alerts"


section \<open>App.tsx: the simulated sensor feed\<close>

definition initialSensorData :: SensorData where
  "initialSensorData =
     \<lparr> waterFlow = 45.2, pressure = 3.8, quality = 95, temperature = 24.5, ph = 7.2,
       turbidity = 0.8, solarPumpStatus = ''active'' \<rparr>"

text \<open>
  The state updater run by the 3-second timer. \<open>k\<close> counts the calls of
  \<open>Math.random()\<close> made before it; the six calls are made in the order of the fields of
  the object literal.
\<close>

definition simulationStep :: "js_env \<Rightarrow> nat \<Rightarrow> SensorData \<Rightarrow> SensorData" where
  "simulationStep env k prev =
     prev\<lparr> waterFlow := waterFlow prev + (random env k - 0.5) * 2,
           pressure := max 0 (pressure prev + (random env (k + 1) - 0.5) * 0.2),
           quality := max 85 (min 100 (quality prev + (random env (k + 2) - 0.5) * 2)),
           temperature := temperature prev + (random env (k + 3) - 0.5) * 0.5,
           ph := max 6.5 (min 8.5 (ph prev + (random env (k + 4) - 0.5) * 0.1)),
           turbidity := max 0 (turbidity prev + (random env (k + 5) - 0.5) * 0.1) \<rparr>"

text \<open>The state after \<open>n\<close> ticks of the timer.\<close>

fun simulation :: "js_env \<Rightarrow> nat \<Rightarrow> SensorData" where
  "simulation env 0 = initialSensorData"
| "simulation env (Suc n) = simulationStep env (6 * n) (simulation env n)"


section \<open>lib/supabase.ts: rows, update objects and the hosted client\<close>

text \<open>
  Rows follow the interfaces of the current \<open>lib/supabase.ts\<close> (the columns of the SQL
  schema). The string unions of the interfaces are \<open>TEXT\<close> columns checked by the
  database only, and the wrappers receive them as plain strings (\<open>status: string\<close>,
  \<open>sensor.type as any\<close>), so they are strings here. An optional field is an option.
\<close>

record sensor_reading_input =
  sensor_id :: string
  sensor_type :: string
  value_sr :: real
  unit_sr :: string
  location :: string
  timestamp_sr :: string
  status :: string
  device_id :: "string option"
  battery_level :: "int option"
  signal_strength :: "int option"

record sensor_reading = sensor_reading_input +
  id_sr :: string

record complaint_input =
  description_c :: string
  location_c :: string
  priority :: string
  status_c :: string
  submitted_by :: string
  photo_urls :: "string list option"
  gps_coordinates :: "string option"
  gps_accuracy :: "real option"
  resolved_at :: "string option"
  assigned_to :: "string option"
  resolution_notes :: "string option"
  category :: "string option"

text \<open>\<open>{ ...complaint, submitted_at }\<close>: the object handed to \<open>insert\<close>.\<close>

record complaint_insert = complaint_input +
  submitted_at :: string

record complaint = complaint_insert +
  id_c :: string

record maintenance_task_input =
  task :: string
  description_mt :: string
  priority_mt :: string
  status_mt :: string
  due_date :: string
  assigned_to_mt :: string
  completed_at :: "string option"
  location_mt :: string
  estimated_duration :: "real option"
  actual_duration :: "real option"
  cost :: "real option"
  notes_mt :: "string option"
  photo_urls_mt :: "string list option"

record maintenance_task = maintenance_task_input +
  id_mt :: string

record alert_input =
  type_al :: string
  title_al :: string
  description_al :: string
  source_al :: string
  timestamp_al :: string
  acknowledged_al :: bool
  resolved_al :: bool
  acknowledged_by :: "string option"
  acknowledged_at :: "string option"
  resolved_by :: "string option"
  resolved_at_al :: "string option"
  sensor_id_al :: "string option"
  threshold_value :: "real option"
  current_value :: "real option"
  location_al :: "string option"
  severity_score :: "real option"

record alert = alert_input +
  id_al :: string

text \<open>
  The objects handed to \<open>update\<close>. A property that the code did not set is \<open>None\<close>;
  \<open>updateData.assigned_to = x\<close> is the record update \<open>assigned_to_cu := Some x\<close>.
\<close>

record complaint_update =
  status_cu :: "string option"
  assigned_to_cu :: "string option"
  resolution_notes_cu :: "string option"
  resolved_at_cu :: "string option"
  photo_urls_cu :: "string list option"

record task_update =
  status_tu :: "string option"
  completed_at_tu :: "string option"
  notes_tu :: "string option"
  photo_urls_tu :: "string list option"

record alert_update =
  acknowledged_au :: "bool option"
  acknowledged_at_au :: "string option"
  acknowledged_by_au :: "string option"
  resolved_au :: "bool option"
  resolved_at_au :: "string option"
  resolved_by_au :: "string option"

definition emptyComplaintUpdate :: complaint_update where
  "emptyComplaintUpdate =
     \<lparr> status_cu = None, assigned_to_cu = None, resolution_notes_cu = None,
       resolved_at_cu = None, photo_urls_cu = None \<rparr>"

definition emptyTaskUpdate :: task_update where
  "emptyTaskUpdate =
     \<lparr> status_tu = None, completed_at_tu = None, notes_tu = None, photo_urls_tu = None \<rparr>"

definition emptyAlertUpdate :: alert_update where
  "emptyAlertUpdate =
     \<lparr> acknowledged_au = None, acknowledged_at_au = None, acknowledged_by_au = None,
       resolved_au = None, resolved_at_au = None, resolved_by_au = None \<rparr>"

record File =
  name :: string
  bytes :: string

text \<open>
  What the query builder is asked: the chain \<open>from(t).select(c).eq(..).gte(..).order(..).limit(n)\<close>
  as a record; \<open>sel_order = (column, ascending)\<close>.
\<close>

record select_query =
  sel_table :: string
  sel_columns :: string
  sel_eq :: "(string \<times> string) option"
  sel_gte :: "(string \<times> string) option"
  sel_order :: "string \<times> bool"
  sel_limit :: "nat option"

text \<open>
  The answer of an awaited call, \<open>{ data, error }\<close>; \<open>null\<close> is \<open>None\<close>. The client is
  free to fill the two fields independently.
\<close>

datatype pg_error = PgError string

record 'a response =
  data :: "'a option"
  error :: "pg_error option"

text \<open>
  Every call the wrappers make on the client, as recorded in the trace of the world. The
  boolean of an insert or update says whether the chain ends in \<open>.single()\<close>.
\<close>

datatype call =
    Select select_query
  | InsertSensorReading "sensor_reading_input list" bool
  | InsertComplaint "complaint_insert list" bool
  | UpdateComplaint complaint_update string bool
  | InsertMaintenanceTask "maintenance_task_input list" bool
  | UpdateMaintenanceTask task_update string bool
  | InsertAlert "alert_input list" bool
  | UpdateAlert alert_update string bool
  | StorageUpload string string File
  | ChannelSubscribe string string

text \<open>
  The hosted client, over a backend state \<open>'s\<close> of its own: each awaited call maps the
  state to an answer and a new state. \<open>.select()\<close> after an insert or update answers with
  a list of rows, \<open>.select().single()\<close> with one row. A projection (\<open>select('value, timestamp')\<close>)
  answers with rows of which only the named columns are meaningful. \<open>getPublicUrl\<close> is
  synchronous and only builds a URL. \<open>subscribe\<close> answers with a channel handle.
\<close>

record 's client =
  select_sensor_readings :: "select_query \<Rightarrow> 's \<Rightarrow> sensor_reading list response \<times> 's"
  select_complaints :: "select_query \<Rightarrow> 's \<Rightarrow> complaint list response \<times> 's"
  select_maintenance_tasks :: "select_query \<Rightarrow> 's \<Rightarrow> maintenance_task list response \<times> 's"
  select_alerts :: "select_query \<Rightarrow> 's \<Rightarrow> alert list response \<times> 's"
  insert_sensor_readings :: "sensor_reading_input list \<Rightarrow> 's \<Rightarrow> sensor_reading list response \<times> 's"
  insert_complaints :: "complaint_insert list \<Rightarrow> 's \<Rightarrow> complaint list response \<times> 's"
  update_complaints :: "complaint_update \<Rightarrow> string \<Rightarrow> 's \<Rightarrow> complaint list response \<times> 's"
  insert_maintenance_tasks :: "maintenance_task_input list \<Rightarrow> 's \<Rightarrow> maintenance_task list response \<times> 's"
  update_maintenance_tasks :: "task_update \<Rightarrow> string \<Rightarrow> 's \<Rightarrow> maintenance_task list response \<times> 's"
  insert_alerts :: "alert_input list \<Rightarrow> 's \<Rightarrow> alert list response \<times> 's"
  update_alerts :: "alert_update \<Rightarrow> string \<Rightarrow> 's \<Rightarrow> alert list response \<times> 's"
  insert_sensor_readings_single :: "sensor_reading_input list \<Rightarrow> 's \<Rightarrow> sensor_reading response \<times> 's"
  insert_complaints_single :: "complaint_insert list \<Rightarrow> 's \<Rightarrow> complaint response \<times> 's"
  update_complaints_single :: "complaint_update \<Rightarrow> string \<Rightarrow> 's \<Rightarrow> complaint response \<times> 's"
  insert_maintenance_tasks_single :: "maintenance_task_input list \<Rightarrow> 's \<Rightarrow> maintenance_task response \<times> 's"
  update_maintenance_tasks_single :: "task_update \<Rightarrow> string \<Rightarrow> 's \<Rightarrow> maintenance_task response \<times> 's"
  insert_alerts_single :: "alert_input list \<Rightarrow> 's \<Rightarrow> alert response \<times> 's"
  update_alerts_single :: "alert_update \<Rightarrow> string \<Rightarrow> 's \<Rightarrow> alert response \<times> 's"
  storage_upload :: "string \<Rightarrow> string \<Rightarrow> File \<Rightarrow> 's \<Rightarrow> string response \<times> 's"
  storage_getPublicUrl :: "string \<Rightarrow> string \<Rightarrow> string"
  channel_subscribe :: "string \<Rightarrow> string \<Rightarrow> 's \<Rightarrow> nat \<times> 's"

text \<open>What a wrapper throws: the client's error object, a \<open>new Error(message)\<close>, or one of
  the run-time errors of JavaScript.\<close>

datatype exn = Thrown pg_error | Error string | TypeError | RangeError

datatype console_entry = Warn string | ErrorLog string exn

text \<open>
  The world a wrapper runs in: the backend's state, the trace of calls made on the client,
  the console, and how often the clock and \<open>Math.random()\<close> have been read.
\<close>

record 's world =
  backend :: 's
  calls :: "call list"
  console :: "console_entry list"
  clock_reads :: nat
  random_reads :: nat

definition invoke :: "call \<Rightarrow> ('s \<Rightarrow> 'r \<times> 's) \<Rightarrow> 's world \<Rightarrow> 'r \<times> 's world" where
  "invoke c f w = (case f (backend w) of (r, s') \<Rightarrow> (r, w\<lparr> backend := s', calls := calls w @ [c] \<rparr>))"

definition consoleWarn :: "string \<Rightarrow> 's world \<Rightarrow> 's world" where
  "consoleWarn msg w = w\<lparr> console := console w @ [Warn msg] \<rparr>"

definition consoleError :: "string \<Rightarrow> exn \<Rightarrow> 's world \<Rightarrow> 's world" where
  "consoleError msg e w = w\<lparr> console := console w @ [ErrorLog msg e] \<rparr>"

definition dateNow :: "js_env \<Rightarrow> 's world \<Rightarrow> nat \<times> 's world" where
  "dateNow env w = (clock env (clock_reads w), w\<lparr> clock_reads := Suc (clock_reads w) \<rparr>)"


text \<open>\<open>x || []\<close> on a list that may be \<open>null\<close>; an array is always truthy.\<close>

definition orEmpty :: "'a list option \<Rightarrow> 'a list" where
  "orEmpty d = (case d of None \<Rightarrow> [] | Some xs \<Rightarrow> xs)"

text \<open>\<open>if (s)\<close> on an optional string: \<open>undefined\<close> and the empty string are falsy.\<close>

definition truthy :: "string option \<Rightarrow> bool" where
  "truthy s = (case s of None \<Rightarrow> False | Some x \<Rightarrow> x \<noteq> [])"

text \<open>
  \<open>data[0]\<close> where \<open>data\<close> may be \<open>null\<close>: reading a property of \<open>null\<close> throws a
  TypeError, and index 0 of an empty array is \<open>undefined\<close> (\<open>None\<close>).
\<close>

definition first :: "'a list option \<Rightarrow> exn + 'a option" where
  "first d = (case d of None \<Rightarrow> Inl TypeError | Some [] \<Rightarrow> Inr None | Some (x # _) \<Rightarrow> Inr (Some x))"

section \<open>lib/supabase.ts with the configuration guard: PhotoUploadService and JalRakshakAPI\<close>

text \<open>
  \<open>supabase\<close> is \<open>null\<close> (\<open>None\<close>) when the credentials are missing. Every wrapper takes
  the world and returns what it returns or throws (\<open>Inl\<close>) with the world it leaves.
\<close>

definition notConfigured :: exn where
  "notConfigured = Error ''Supabase not configured''"

text \<open>\<open>if (error) throw error; return data;\<close> and its variant \<open>return data || [];\<close>\<close>

definition throwOrData :: "'a response \<Rightarrow> exn + 'a option" where
  "throwOrData r = (case error r of Some e \<Rightarrow> Inl (Thrown e) | None \<Rightarrow> Inr (data r))"

definition throwOrRows :: "'a list response \<Rightarrow> exn + 'a list" where
  "throwOrRows r = (case error r of Some e \<Rightarrow> Inl (Thrown e) | None \<Rightarrow> Inr (orEmpty (data r)))"

text \<open>\<open>name.split('.')\<close>; the array it returns is never empty, so \<open>.pop()\<close> is \<open>last\<close>.\<close>

fun split_dot :: "string \<Rightarrow> string list" where
  "split_dot [] = [[]]"
| "split_dot (c # cs) =
     (if c = CHR ''.'' then [] # split_dot cs
      else (case split_dot cs of x # xs \<Rightarrow> (c # x) # xs | [] \<Rightarrow> [[c]]))"

text \<open>The queries of the read operations (the same in both revisions).\<close>

definition latestReadingsQuery :: select_query where
  "latestReadingsQuery =
     \<lparr> sel_table = ''sensor_readings'', sel_columns = ''*'', sel_eq = None,
       sel_gte = None, sel_order = (''timestamp'', False), sel_limit = Some 50 \<rparr>"

definition readingsByTypeQuery :: "string \<Rightarrow> select_query" where
  "readingsByTypeQuery sensorType =
     \<lparr> sel_table = ''sensor_readings'', sel_columns = ''*'',
       sel_eq = Some (''sensor_type'', sensorType),
       sel_gte = None, sel_order = (''timestamp'', False), sel_limit = Some 100 \<rparr>"

definition complaintsQuery :: select_query where
  "complaintsQuery =
     \<lparr> sel_table = ''complaints'', sel_columns = ''*'', sel_eq = None,
       sel_gte = None, sel_order = (''submitted_at'', False), sel_limit = None \<rparr>"

definition maintenanceTasksQuery :: select_query where
  "maintenanceTasksQuery =
     \<lparr> sel_table = ''maintenance_tasks'', sel_columns = ''*'', sel_eq = None,
       sel_gte = None, sel_order = (''due_date'', True), sel_limit = None \<rparr>"

definition alertsQuery :: select_query where
  "alertsQuery =
     \<lparr> sel_table = ''alerts'', sel_columns = ''*'', sel_eq = None,
       sel_gte = None, sel_order = (''timestamp'', False), sel_limit = None \<rparr>"

text \<open>The upload options \<open>{ cacheControl: '3600', upsert: false }\<close> are constant and left out
  of the recorded call.\<close>

definition uploadComplaintPhoto ::
  "js_env \<Rightarrow> 's client option \<Rightarrow> File \<Rightarrow> string \<Rightarrow> 's world \<Rightarrow> (exn + string) \<times> 's world" where
  "uploadComplaintPhoto env supabase file complaintId w =
     (case supabase of
        None \<Rightarrow> (Inl notConfigured, w)
      | Some sb \<Rightarrow>
          (let fileExt = last (split_dot (name file))
           in case dateNow env w of (t, w1) \<Rightarrow>
             (let fileName = ''complaint_'' @ complaintId @ ''_'' @ numberToString env t @ ''.'' @ fileExt;
                  filePath = ''complaints/'' @ fileName
              in case invoke (StorageUpload ''complaint_photos'' filePath file)
                             (storage_upload sb ''complaint_photos'' filePath file) w1 of (r, w2) \<Rightarrow>
                   (case error r of
                      Some e \<Rightarrow> (Inl (Thrown e), w2)
                    | None \<Rightarrow> (Inr (storage_getPublicUrl sb ''complaint_photos'' filePath), w2)))))"

definition uploadMaintenancePhoto ::
  "js_env \<Rightarrow> 's client option \<Rightarrow> File \<Rightarrow> string \<Rightarrow> 's world \<Rightarrow> (exn + string) \<times> 's world" where
  "uploadMaintenancePhoto env supabase file taskId w =
     (case supabase of
        None \<Rightarrow> (Inl notConfigured, w)
      | Some sb \<Rightarrow>
          (let fileExt = last (split_dot (name file))
           in case dateNow env w of (t, w1) \<Rightarrow>
             (let fileName = ''maintenance_'' @ taskId @ ''_'' @ numberToString env t @ ''.'' @ fileExt;
                  filePath = ''maintenance/'' @ fileName
              in case invoke (StorageUpload ''maintenance_photos'' filePath file)
                             (storage_upload sb ''maintenance_photos'' filePath file) w1 of (r, w2) \<Rightarrow>
                   (case error r of
                      Some e \<Rightarrow> (Inl (Thrown e), w2)
                    | None \<Rightarrow> (Inr (storage_getPublicUrl sb ''maintenance_photos'' filePath), w2)))))"

definition getLatestSensorReadings ::
  "'s client option \<Rightarrow> 's world \<Rightarrow> (exn + sensor_reading list) \<times> 's world" where
  "getLatestSensorReadings supabase w =
     (case supabase of
        None \<Rightarrow> (Inr [], consoleWarn ''Supabase not configured, returning mock data'' w)
      | Some sb \<Rightarrow>
          (case invoke (Select latestReadingsQuery) (select_sensor_readings sb latestReadingsQuery) w of (r, w') \<Rightarrow>
             (throwOrRows r, w')))"

definition getSensorReadingsByType ::
  "'s client option \<Rightarrow> string \<Rightarrow> 's world \<Rightarrow> (exn + sensor_reading list) \<times> 's world" where
  "getSensorReadingsByType supabase sensorType w =
     (case supabase of
        None \<Rightarrow> (Inr [], consoleWarn ''Supabase not configured, returning mock data'' w)
      | Some sb \<Rightarrow>
          (case invoke (Select (readingsByTypeQuery sensorType)) (select_sensor_readings sb (readingsByTypeQuery sensorType)) w of (r, w') \<Rightarrow>
             (throwOrRows r, w')))"

definition insertSensorReading ::
  "'s client option \<Rightarrow> sensor_reading_input \<Rightarrow> 's world \<Rightarrow> (exn + sensor_reading option) \<times> 's world" where
  "insertSensorReading supabase reading w =
     (case supabase of
        None \<Rightarrow> (Inl notConfigured, w)
      | Some sb \<Rightarrow>
          (case invoke (InsertSensorReading [reading] True)
                       (insert_sensor_readings_single sb [reading]) w of (r, w') \<Rightarrow>
             (throwOrData r, w')))"

definition getComplaints ::
  "'s client option \<Rightarrow> 's world \<Rightarrow> (exn + complaint list) \<times> 's world" where
  "getComplaints supabase w =
     (case supabase of
        None \<Rightarrow> (Inr [], consoleWarn ''Supabase not configured, returning mock data'' w)
      | Some sb \<Rightarrow>
          (case invoke (Select complaintsQuery) (select_complaints sb complaintsQuery) w of (r, w') \<Rightarrow>
             (throwOrRows r, w')))"

text \<open>
  The \<open>for\<close> loop of \<open>submitComplaint\<close>. The argument \<open>complaintData.id\<close> is evaluated
  inside the \<open>try\<close>: on a \<open>null\<close> row it throws a TypeError that the \<open>catch\<close> logs like
  any upload error.
\<close>

fun uploadComplaintPhotos ::
  "js_env \<Rightarrow> 's client option \<Rightarrow> complaint option \<Rightarrow> File list \<Rightarrow> string list \<Rightarrow> 's world
     \<Rightarrow> string list \<times> 's world" where
  "uploadComplaintPhotos env supabase complaintData [] photoUrls w = (photoUrls, w)"
| "uploadComplaintPhotos env supabase complaintData (photo # rest) photoUrls w =
     (case (case complaintData of
              None \<Rightarrow> (Inl TypeError, w)
            | Some cd \<Rightarrow> uploadComplaintPhoto env supabase photo (id_c cd) w) of
        (Inr photoUrl, w') \<Rightarrow>
          uploadComplaintPhotos env supabase complaintData rest (photoUrls @ [photoUrl]) w'
      | (Inl e, w') \<Rightarrow>
          uploadComplaintPhotos env supabase complaintData rest photoUrls
            (consoleError ''Failed to upload photo:'' e w'))"

definition submitComplaint ::
  "js_env \<Rightarrow> 's client option \<Rightarrow> complaint_input \<Rightarrow> File list option \<Rightarrow> 's world
     \<Rightarrow> (exn + complaint option) \<times> 's world" where
  "submitComplaint env supabase complaint photos w =
     (case supabase of
        None \<Rightarrow> (Inl notConfigured, w)
      | Some sb \<Rightarrow>
          (case dateNow env w of (t, w1) \<Rightarrow>
            (let row = complaint_input.extend complaint
                         (complaint_insert.fields (toISOString env (int t)))
             in case invoke (InsertComplaint [row] True) (insert_complaints_single sb [row]) w1 of
               (r, w2) \<Rightarrow>
                 (case error r of
                    Some complaintError \<Rightarrow> (Inl (Thrown complaintError), w2)
                  | None \<Rightarrow>
                      (let complaintData = data r
                       in case photos of
                            None \<Rightarrow> (Inr complaintData, w2)
                          | Some ps \<Rightarrow>
                              if length ps > 0 then
                                (case uploadComplaintPhotos env supabase complaintData ps [] w2 of
                                   (photoUrls, w3) \<Rightarrow>
                                     if length photoUrls > 0 then
                                       (case complaintData of
                                          None \<Rightarrow> (Inl TypeError, w3)
                                        | Some cd \<Rightarrow>
                                            (let u = emptyComplaintUpdate\<lparr> photo_urls_cu := Some photoUrls \<rparr>
                                             in case invoke (UpdateComplaint u (id_c cd) True)
                                                            (update_complaints_single sb u (id_c cd)) w3 of
                                                  (r', w4) \<Rightarrow> (throwOrData r', w4)))
                                     else (Inr complaintData, w3))
                              else (Inr complaintData, w2))))))"

text \<open>
  The update object of \<open>updateComplaintStatus\<close>, built before the call: \<open>{ status }\<close>,
  then the three conditional assignments. \<open>resolved_at\<close> reads the clock.
\<close>

definition complaintStatusUpdateData ::
  "js_env \<Rightarrow> string \<Rightarrow> string option \<Rightarrow> string option \<Rightarrow> 's world \<Rightarrow> complaint_update \<times> 's world" where
  "complaintStatusUpdateData env status' assignedTo resolutionNotes w =
     (let u0 = emptyComplaintUpdate\<lparr> status_cu := Some status' \<rparr>;
          u1 = (if truthy assignedTo then u0\<lparr> assigned_to_cu := assignedTo \<rparr> else u0);
          u2 = (if truthy resolutionNotes then u1\<lparr> resolution_notes_cu := resolutionNotes \<rparr> else u1)
      in if status' = ''resolved''
         then (case dateNow env w of (t, w') \<Rightarrow>
                 (u2\<lparr> resolved_at_cu := Some (toISOString env (int t)) \<rparr>, w'))
         else (u2, w))"

definition updateComplaintStatus ::
  "js_env \<Rightarrow> 's client option \<Rightarrow> string \<Rightarrow> string \<Rightarrow> string option \<Rightarrow> string option \<Rightarrow> 's world
     \<Rightarrow> (exn + complaint option) \<times> 's world" where
  "updateComplaintStatus env supabase id' status' assignedTo resolutionNotes w =
     (case supabase of
        None \<Rightarrow> (Inl notConfigured, w)
      | Some sb \<Rightarrow>
          (case complaintStatusUpdateData env status' assignedTo resolutionNotes w of
             (updateData, w1) \<Rightarrow>
               (case invoke (UpdateComplaint updateData id' True)
                            (update_complaints_single sb updateData id') w1 of (r, w2) \<Rightarrow>
                  (throwOrData r, w2))))"

definition getMaintenanceTasks ::
  "'s client option \<Rightarrow> 's world \<Rightarrow> (exn + maintenance_task list) \<times> 's world" where
  "getMaintenanceTasks supabase w =
     (case supabase of
        None \<Rightarrow> (Inr [], consoleWarn ''Supabase not configured, returning mock data'' w)
      | Some sb \<Rightarrow>
          (case invoke (Select maintenanceTasksQuery) (select_maintenance_tasks sb maintenanceTasksQuery) w of (r, w') \<Rightarrow>
             (throwOrRows r, w')))"

definition createMaintenanceTask ::
  "'s client option \<Rightarrow> maintenance_task_input \<Rightarrow> 's world
     \<Rightarrow> (exn + maintenance_task option) \<times> 's world" where
  "createMaintenanceTask supabase task' w =
     (case supabase of
        None \<Rightarrow> (Inl notConfigured, w)
      | Some sb \<Rightarrow>
          (case invoke (InsertMaintenanceTask [task'] True)
                       (insert_maintenance_tasks_single sb [task']) w of (r, w') \<Rightarrow>
             (throwOrData r, w')))"

fun uploadMaintenancePhotos ::
  "js_env \<Rightarrow> 's client option \<Rightarrow> string \<Rightarrow> File list \<Rightarrow> string list \<Rightarrow> 's world
     \<Rightarrow> string list \<times> 's world" where
  "uploadMaintenancePhotos env supabase id' [] photoUrls w = (photoUrls, w)"
| "uploadMaintenancePhotos env supabase id' (photo # rest) photoUrls w =
     (case uploadMaintenancePhoto env supabase photo id' w of
        (Inr photoUrl, w') \<Rightarrow>
          uploadMaintenancePhotos env supabase id' rest (photoUrls @ [photoUrl]) w'
      | (Inl e, w') \<Rightarrow>
          uploadMaintenancePhotos env supabase id' rest photoUrls
            (consoleError ''Failed to upload maintenance photo:'' e w'))"

definition completeMaintenanceTask ::
  "js_env \<Rightarrow> 's client option \<Rightarrow> string \<Rightarrow> string option \<Rightarrow> File list option \<Rightarrow> 's world
     \<Rightarrow> (exn + maintenance_task option) \<times> 's world" where
  "completeMaintenanceTask env supabase id' notes photos w =
     (case supabase of
        None \<Rightarrow> (Inl notConfigured, w)
      | Some sb \<Rightarrow>
          (case (case photos of
                   None \<Rightarrow> ([], w)
                 | Some ps \<Rightarrow> if length ps > 0
                             then uploadMaintenancePhotos env supabase id' ps [] w
                             else ([], w)) of
             (photoUrls, w1) \<Rightarrow>
               (case dateNow env w1 of (t, w2) \<Rightarrow>
                 (let u0 = emptyTaskUpdate\<lparr> status_tu := Some ''completed'',
                                              completed_at_tu := Some (toISOString env (int t)) \<rparr>;
                      u1 = (if truthy notes then u0\<lparr> notes_tu := notes \<rparr> else u0);
                      updateData = (if length photoUrls > 0
                                    then u1\<lparr> photo_urls_tu := Some photoUrls \<rparr> else u1)
                  in case invoke (UpdateMaintenanceTask updateData id' True)
                                 (update_maintenance_tasks_single sb updateData id') w2 of (r, w3) \<Rightarrow>
                       (throwOrData r, w3)))))"

definition getAlerts ::
  "'s client option \<Rightarrow> 's world \<Rightarrow> (exn + alert list) \<times> 's world" where
  "getAlerts supabase w =
     (case supabase of
        None \<Rightarrow> (Inr [], consoleWarn ''Supabase not configured, returning mock data'' w)
      | Some sb \<Rightarrow>
          (case invoke (Select alertsQuery) (select_alerts sb alertsQuery) w of (r, w') \<Rightarrow>
             (throwOrRows r, w')))"

definition createAlert ::
  "'s client option \<Rightarrow> alert_input \<Rightarrow> 's world \<Rightarrow> (exn + alert option) \<times> 's world" where
  "createAlert supabase alert' w =
     (case supabase of
        None \<Rightarrow> (Inl notConfigured, w)
      | Some sb \<Rightarrow>
          (case invoke (InsertAlert [alert'] True) (insert_alerts_single sb [alert']) w of (r, w') \<Rightarrow>
             (throwOrData r, w')))"

text \<open>The update objects of the two alert actions; \<open>resolveAlert\<close> reads the clock twice.\<close>

definition acknowledgeUpdateData ::
  "js_env \<Rightarrow> string option \<Rightarrow> 's world \<Rightarrow> alert_update \<times> 's world" where
  "acknowledgeUpdateData env userId w =
     (case dateNow env w of (t, w') \<Rightarrow>
        (let u0 = emptyAlertUpdate\<lparr> acknowledged_au := Some True,
                                      acknowledged_at_au := Some (toISOString env (int t)) \<rparr>
         in (if truthy userId then u0\<lparr> acknowledged_by_au := userId \<rparr> else u0, w')))"

definition resolveUpdateData ::
  "js_env \<Rightarrow> string option \<Rightarrow> 's world \<Rightarrow> alert_update \<times> 's world" where
  "resolveUpdateData env userId w =
     (case dateNow env w of (t1, w1) \<Rightarrow>
      case dateNow env w1 of (t2, w2) \<Rightarrow>
        (let u0 = emptyAlertUpdate\<lparr> resolved_au := Some True,
                                      acknowledged_au := Some True,
                                      resolved_at_au := Some (toISOString env (int t1)),
                                      acknowledged_at_au := Some (toISOString env (int t2)) \<rparr>
         in (if truthy userId
             then u0\<lparr> resolved_by_au := userId, acknowledged_by_au := userId \<rparr>
             else u0, w2)))"

definition acknowledgeAlert_api ::
  "js_env \<Rightarrow> 's client option \<Rightarrow> string \<Rightarrow> string option \<Rightarrow> 's world
     \<Rightarrow> (exn + alert option) \<times> 's world" where
  "acknowledgeAlert_api env supabase id' userId w =
     (case supabase of
        None \<Rightarrow> (Inl notConfigured, w)
      | Some sb \<Rightarrow>
          (case acknowledgeUpdateData env userId w of (updateData, w1) \<Rightarrow>
             (case invoke (UpdateAlert updateData id' True)
                          (update_alerts_single sb updateData id') w1 of (r, w2) \<Rightarrow>
                (throwOrData r, w2))))"

definition resolveAlert_api ::
  "js_env \<Rightarrow> 's client option \<Rightarrow> string \<Rightarrow> string option \<Rightarrow> 's world
     \<Rightarrow> (exn + alert option) \<times> 's world" where
  "resolveAlert_api env supabase id' userId w =
     (case supabase of
        None \<Rightarrow> (Inl notConfigured, w)
      | Some sb \<Rightarrow>
          (case resolveUpdateData env userId w of (updateData, w1) \<Rightarrow>
             (case invoke (UpdateAlert updateData id' True)
                          (update_alerts_single sb updateData id') w1 of (r, w2) \<Rightarrow>
                (throwOrData r, w2))))"

text \<open>
  \<open>subscribeTo\<close> returns the channel of the client, or the object
  \<open>{ unsubscribe: () => {} }\<close> when there is no client. The callback is stored by the
  client and not run by \<open>subscribeTo\<close>; it is not part of the model.
\<close>

datatype subscription = NoopSubscription | RealtimeChannel nat

definition subscribeTo ::
  "'s client option \<Rightarrow> string \<Rightarrow> 's world \<Rightarrow> subscription \<times> 's world" where
  "subscribeTo supabase table w =
     (case supabase of
        None \<Rightarrow> (NoopSubscription,
                 consoleWarn ''Supabase not configured, real-time subscriptions disabled'' w)
      | Some sb \<Rightarrow>
          (case invoke (ChannelSubscribe (table @ ''_changes'') table)
                       (channel_subscribe sb (table @ ''_changes'') table) w of (ch, w') \<Rightarrow>
             (RealtimeChannel ch, w')))"

text \<open>
  \<open>new Date(x).toISOString()\<close>: the time value is clipped to an integer, and a value beyond
  8.64e15 ms from the epoch is an invalid date, on which \<open>toISOString\<close> throws a RangeError.
\<close>

definition dateToISOString :: "js_env \<Rightarrow> real \<Rightarrow> exn + string" where
  "dateToISOString env x =
     (if \<bar>x\<bar> \<le> 8640000000000000
      then Inr (toISOString env (if 0 \<le> x then \<lfloor>x\<rfloor> else \<lceil>x\<rceil>))
      else Inl RangeError)"

text \<open>
  \<open>Date.now() - days * 24 * 60 * 60 * 1000\<close>: the product is evaluated from the left, each
  multiplication and the subtraction rounded to a double; \<open>Date.now()\<close> is an integer.
\<close>

definition cutoffTime :: "js_env \<Rightarrow> nat \<Rightarrow> real \<Rightarrow> real" where
  "cutoffTime env t days =
     fl env (real t - fl env (fl env (fl env (fl env (days * 24) * 60) * 60) * 1000))"

definition consumptionQuery :: "string \<Rightarrow> select_query" where
  "consumptionQuery since =
     \<lparr> sel_table = ''sensor_readings'', sel_columns = ''value, timestamp'',
       sel_eq = Some (''sensor_type'', ''flow''), sel_gte = Some (''timestamp'', since),
       sel_order = (''timestamp'', True), sel_limit = None \<rparr>"

definition getConsumptionAnalytics ::
  "js_env \<Rightarrow> 's client option \<Rightarrow> real \<Rightarrow> 's world \<Rightarrow> (exn + sensor_reading list) \<times> 's world" where
  "getConsumptionAnalytics env supabase days w =
     (case supabase of
        None \<Rightarrow> (Inr [], consoleWarn ''Supabase not configured, returning mock data'' w)
      | Some sb \<Rightarrow>
          (case dateNow env w of (t, w1) \<Rightarrow>
             (case dateToISOString env (cutoffTime env t days) of
                Inl e \<Rightarrow> (Inl e, w1)
              | Inr since \<Rightarrow>
                  (case invoke (Select (consumptionQuery since))
                               (select_sensor_readings sb (consumptionQuery since)) w1 of (r, w2) \<Rightarrow>
                     (throwOrRows r, w2)))))"

text \<open>
  The \<open>Map\<close> of \<open>getSystemHealth\<close> as the list of its entries in insertion order, with
  \<open>has\<close> and \<open>set\<close>; \<open>Object.fromEntries\<close> turns the entries into an object, a later entry
  of a key winning.
\<close>

definition map_has :: "('k \<times> 'v) list \<Rightarrow> 'k \<Rightarrow> bool" where
  "map_has m k = (k \<in> set (map fst m))"

fun map_set :: "('k \<times> 'v) list \<Rightarrow> 'k \<Rightarrow> 'v \<Rightarrow> ('k \<times> 'v) list" where
  "map_set [] k v = [(k, v)]"
| "map_set ((k', v') # m) k v = (if k' = k then (k, v) # m else (k', v') # map_set m k v)"

definition fromEntries :: "('k \<times> 'v) list \<Rightarrow> ('k \<rightharpoonup> 'v)" where
  "fromEntries es = foldl (\<lambda>obj (k, v). obj(k \<mapsto> v)) Map.empty es"

text \<open>The \<open>forEach\<close> over the rows, newest first, and the object returned.\<close>

definition healthMapOf :: "sensor_reading list \<Rightarrow> (string \<times> string) list" where
  "healthMapOf rows =
     foldl (\<lambda>healthMap reading.
              if \<not> map_has healthMap (sensor_type reading)
              then map_set healthMap (sensor_type reading) (status reading)
              else healthMap) [] rows"

definition systemHealthOf :: "sensor_reading list \<Rightarrow> (string \<rightharpoonup> string)" where
  "systemHealthOf rows = fromEntries (healthMapOf rows)"

definition healthQuery :: select_query where
  "healthQuery =
     \<lparr> sel_table = ''sensor_readings'', sel_columns = ''sensor_type, status, timestamp'',
       sel_eq = None, sel_gte = None, sel_order = (''timestamp'', False), sel_limit = Some 100 \<rparr>"

definition getSystemHealth ::
  "'s client option \<Rightarrow> 's world \<Rightarrow> (exn + (string \<rightharpoonup> string)) \<times> 's world" where
  "getSystemHealth supabase w =
     (case supabase of
        None \<Rightarrow> (Inr Map.empty, consoleWarn ''Supabase not configured, returning mock data'' w)
      | Some sb \<Rightarrow>
          (case invoke (Select healthQuery) (select_sensor_readings sb healthQuery) w of (r, w') \<Rightarrow>
             (case error r of
                Some e \<Rightarrow> (Inl (Thrown e), w')
              | None \<Rightarrow> (Inr (systemHealthOf (orEmpty (data r))), w'))))"






section \<open>lib/supabase.ts without the configuration guard\<close>

text \<open>
  The revision of \<open>JalRakshakAPI\<close> in which \<open>supabase\<close> is always a client
  (\<open>createClient\<close> with default credentials), inserts and updates end in \<open>.select()\<close>
  and return \<open>data[0]\<close>, and there is no photo upload. Its functions carry the suffix
  \<open>_v1\<close>. Its interfaces name fewer columns of the same tables; the fields it does not
  know are \<open>None\<close> in the rows and are not touched by the wrappers.
\<close>

definition throwOrFirst :: "'a list response \<Rightarrow> exn + 'a option" where
  "throwOrFirst r = (case error r of Some e \<Rightarrow> Inl (Thrown e) | None \<Rightarrow> first (data r))"

definition getLatestSensorReadings_v1 ::
  "'s client \<Rightarrow> 's world \<Rightarrow> (exn + sensor_reading list option) \<times> 's world" where
  "getLatestSensorReadings_v1 sb w =
     (case invoke (Select latestReadingsQuery) (select_sensor_readings sb latestReadingsQuery) w of (r, w') \<Rightarrow>
             (throwOrData r, w'))"

definition getSensorReadingsByType_v1 ::
  "'s client \<Rightarrow> string \<Rightarrow> 's world \<Rightarrow> (exn + sensor_reading list option) \<times> 's world" where
  "getSensorReadingsByType_v1 sb sensorType w =
     (case invoke (Select (readingsByTypeQuery sensorType)) (select_sensor_readings sb (readingsByTypeQuery sensorType)) w of (r, w') \<Rightarrow>
             (throwOrData r, w'))"

definition insertSensorReading_v1 ::
  "'s client \<Rightarrow> sensor_reading_input \<Rightarrow> 's world \<Rightarrow> (exn + sensor_reading option) \<times> 's world" where
  "insertSensorReading_v1 sb reading w =
     (case invoke (InsertSensorReading [reading] False) (insert_sensor_readings sb [reading]) w of
        (r, w') \<Rightarrow> (throwOrFirst r, w'))"

definition getComplaints_v1 ::
  "'s client \<Rightarrow> 's world \<Rightarrow> (exn + complaint list option) \<times> 's world" where
  "getComplaints_v1 sb w =
     (case invoke (Select complaintsQuery) (select_complaints sb complaintsQuery) w of (r, w') \<Rightarrow>
             (throwOrData r, w'))"

definition submitComplaint_v1 ::
  "js_env \<Rightarrow> 's client \<Rightarrow> complaint_input \<Rightarrow> 's world \<Rightarrow> (exn + complaint option) \<times> 's world" where
  "submitComplaint_v1 env sb complaint w =
     (case dateNow env w of (t, w1) \<Rightarrow>
        (let row = complaint_input.extend complaint
                     (complaint_insert.fields (toISOString env (int t)))
         in case invoke (InsertComplaint [row] False) (insert_complaints sb [row]) w1 of
              (r, w2) \<Rightarrow> (throwOrFirst r, w2)))"

definition complaintStatusUpdateData_v1 ::
  "js_env \<Rightarrow> string \<Rightarrow> string option \<Rightarrow> 's world \<Rightarrow> complaint_update \<times> 's world" where
  "complaintStatusUpdateData_v1 env status' assignedTo w =
     (let u0 = emptyComplaintUpdate\<lparr> status_cu := Some status' \<rparr>;
          u1 = (if truthy assignedTo then u0\<lparr> assigned_to_cu := assignedTo \<rparr> else u0)
      in if status' = ''resolved''
         then (case dateNow env w of (t, w') \<Rightarrow>
                 (u1\<lparr> resolved_at_cu := Some (toISOString env (int t)) \<rparr>, w'))
         else (u1, w))"

definition updateComplaintStatus_v1 ::
  "js_env \<Rightarrow> 's client \<Rightarrow> string \<Rightarrow> string \<Rightarrow> string option \<Rightarrow> 's world
     \<Rightarrow> (exn + complaint option) \<times> 's world" where
  "updateComplaintStatus_v1 env sb id' status' assignedTo w =
     (case complaintStatusUpdateData_v1 env status' assignedTo w of (updateData, w1) \<Rightarrow>
        (case invoke (UpdateComplaint updateData id' False) (update_complaints sb updateData id') w1 of
           (r, w2) \<Rightarrow> (throwOrFirst r, w2)))"

definition getMaintenanceTasks_v1 ::
  "'s client \<Rightarrow> 's world \<Rightarrow> (exn + maintenance_task list option) \<times> 's world" where
  "getMaintenanceTasks_v1 sb w =
     (case invoke (Select maintenanceTasksQuery) (select_maintenance_tasks sb maintenanceTasksQuery) w of (r, w') \<Rightarrow>
             (throwOrData r, w'))"

definition createMaintenanceTask_v1 ::
  "'s client \<Rightarrow> maintenance_task_input \<Rightarrow> 's world \<Rightarrow> (exn + maintenance_task option) \<times> 's world" where
  "createMaintenanceTask_v1 sb task' w =
     (case invoke (InsertMaintenanceTask [task'] False) (insert_maintenance_tasks sb [task']) w of
        (r, w') \<Rightarrow> (throwOrFirst r, w'))"

definition completeMaintenanceTask_v1 ::
  "js_env \<Rightarrow> 's client \<Rightarrow> string \<Rightarrow> 's world \<Rightarrow> (exn + maintenance_task option) \<times> 's world" where
  "completeMaintenanceTask_v1 env sb id' w =
     (case dateNow env w of (t, w1) \<Rightarrow>
        (let updateData = emptyTaskUpdate\<lparr> status_tu := Some ''completed'',
                                           completed_at_tu := Some (toISOString env (int t)) \<rparr>
         in case invoke (UpdateMaintenanceTask updateData id' False)
                        (update_maintenance_tasks sb updateData id') w1 of
              (r, w2) \<Rightarrow> (throwOrFirst r, w2)))"

definition getAlerts_v1 ::
  "'s client \<Rightarrow> 's world \<Rightarrow> (exn + alert list option) \<times> 's world" where
  "getAlerts_v1 sb w =
     (case invoke (Select alertsQuery) (select_alerts sb alertsQuery) w of (r, w') \<Rightarrow>
             (throwOrData r, w'))"

definition createAlert_v1 ::
  "'s client \<Rightarrow> alert_input \<Rightarrow> 's world \<Rightarrow> (exn + alert option) \<times> 's world" where
  "createAlert_v1 sb alert' w =
     (case invoke (InsertAlert [alert'] False) (insert_alerts sb [alert']) w of
        (r, w') \<Rightarrow> (throwOrFirst r, w'))"

definition acknowledgeUpdateData_v1 :: alert_update where
  "acknowledgeUpdateData_v1 = emptyAlertUpdate\<lparr> acknowledged_au := Some True \<rparr>"

definition resolveUpdateData_v1 :: alert_update where
  "resolveUpdateData_v1 = emptyAlertUpdate\<lparr> resolved_au := Some True, acknowledged_au := Some True \<rparr>"

definition acknowledgeAlert_v1 ::
  "'s client \<Rightarrow> string \<Rightarrow> 's world \<Rightarrow> (exn + alert option) \<times> 's world" where
  "acknowledgeAlert_v1 sb id' w =
     (case invoke (UpdateAlert acknowledgeUpdateData_v1 id' False)
                  (update_alerts sb acknowledgeUpdateData_v1 id') w of
        (r, w') \<Rightarrow> (throwOrFirst r, w'))"

definition resolveAlert_v1 ::
  "'s client \<Rightarrow> string \<Rightarrow> 's world \<Rightarrow> (exn + alert option) \<times> 's world" where
  "resolveAlert_v1 sb id' w =
     (case invoke (UpdateAlert resolveUpdateData_v1 id' False)
                  (update_alerts sb resolveUpdateData_v1 id') w of
        (r, w') \<Rightarrow> (throwOrFirst r, w'))"

definition subscribeTo_v1 :: "'s client \<Rightarrow> string \<Rightarrow> 's world \<Rightarrow> subscription \<times> 's world" where
  "subscribeTo_v1 sb table w =
     (case invoke (ChannelSubscribe (table @ ''_changes'') table)
                  (channel_subscribe sb (table @ ''_changes'') table) w of (ch, w') \<Rightarrow>
        (RealtimeChannel ch, w'))"

definition getConsumptionAnalytics_v1 ::
  "js_env \<Rightarrow> 's client \<Rightarrow> real \<Rightarrow> 's world \<Rightarrow> (exn + sensor_reading list option) \<times> 's world" where
  "getConsumptionAnalytics_v1 env sb days w =
     (case dateNow env w of (t, w1) \<Rightarrow>
        (case dateToISOString env (cutoffTime env t days) of
           Inl e \<Rightarrow> (Inl e, w1)
         | Inr since \<Rightarrow>
             (case invoke (Select (consumptionQuery since))
                          (select_sensor_readings sb (consumptionQuery since)) w1 of (r, w2) \<Rightarrow>
                (throwOrData r, w2))))"

text \<open>Here \<open>data.forEach\<close> is called on \<open>data\<close> itself: on \<open>null\<close> it throws a TypeError.\<close>

definition getSystemHealth_v1 ::
  "'s client \<Rightarrow> 's world \<Rightarrow> (exn + (string \<rightharpoonup> string)) \<times> 's world" where
  "getSystemHealth_v1 sb w =
     (case invoke (Select healthQuery) (select_sensor_readings sb healthQuery) w of (r, w') \<Rightarrow>
        (case error r of
           Some e \<Rightarrow> (Inl (Thrown e), w')
         | None \<Rightarrow>
             (case data r of
                None \<Rightarrow> (Inl TypeError, w')
              | Some rows \<Rightarrow> (Inr (systemHealthOf rows), w'))))"

section \<open>Properties stated in the specification's words, and sample inputs\<close>

text \<open>What identifies a kind of alert in the specification: its severity and its title.\<close>

definition alertKey :: "Alert \<Rightarrow> alert_type \<times> string" where
  "alertKey a = (type_ui a, title a)"

text \<open>The bounds of the simulated feed.\<close>

definition simInv :: "SensorData \<Rightarrow> bool" where
  "simInv s \<longleftrightarrow> 0 \<le> pressure s \<and> 0 \<le> turbidity s \<and> 85 \<le> quality s \<and> quality s \<le> 100
                 \<and> 6.5 \<le> ph s \<and> ph s \<le> 8.5"

text \<open>A small environment and inputs on which the model is run in the examples below. Its
  random numbers 0 and 3/4 are doubles and every number the examples compute from them is
  a double, so its rounding leaves them as they are.\<close>

definition exampleEnv :: js_env where
  "exampleEnv =
     \<lparr> toFixed = (\<lambda>x d. ''#''), numberToString = (\<lambda>n. ''0''),
       toLocaleString = (\<lambda>n. ''now''), toISOString = (\<lambda>i. ''iso''),
       toUpperCase = (\<lambda>s. s), clock = (\<lambda>k. 1000 + k),
       random = (\<lambda>k. if even k then 0 else 3 / 4),
       fl = (\<lambda>x. x) \<rparr>"

definition lowReadings :: SensorData where
  "lowReadings =
     \<lparr> waterFlow = 30, pressure = 2.5, quality = 95, temperature = 24.5, ph = 9,
       turbidity = 0.8, solarPumpStatus = ''active'' \<rparr>"

text \<open>
  The states of the alert list of the component: it starts empty (\<open>useState([])\<close>), and
  is replaced by the effect when the sensor data changes and by the two click handlers.
\<close>

datatype ui_event = SensorDataChanged nat SensorData | ClickAcknowledge string | ClickResolve string

fun alertsAfter :: "js_env \<Rightarrow> Alert list \<Rightarrow> ui_event list \<Rightarrow> Alert list" where
  "alertsAfter env alerts [] = alerts"
| "alertsAfter env alerts (SensorDataChanged k sd # es) = alertsAfter env (generateAlerts env k sd) es"
| "alertsAfter env alerts (ClickAcknowledge x # es) = alertsAfter env (acknowledgeAlert alerts x) es"
| "alertsAfter env alerts (ClickResolve x # es) = alertsAfter env (resolveAlert alerts x) es"

text \<open>
  What the database does with an update object on the row it selects is not code of the
  repository (the schema defines no trigger on \<open>alerts\<close>): a column named by the object
  takes its value, every other column stays. Only the two flags matter below.
\<close>

definition applyAlertUpdate :: "alert_update \<Rightarrow> alert \<Rightarrow> alert" where
  "applyAlertUpdate u row =
     row\<lparr> acknowledged_al := (case acknowledged_au u of Some b \<Rightarrow> b | None \<Rightarrow> acknowledged_al row),
          acknowledged_at := (case acknowledged_at_au u of Some t \<Rightarrow> Some t | None \<Rightarrow> acknowledged_at row),
          acknowledged_by := (case acknowledged_by_au u of Some x \<Rightarrow> Some x | None \<Rightarrow> acknowledged_by row),
          resolved_al := (case resolved_au u of Some b \<Rightarrow> b | None \<Rightarrow> resolved_al row),
          resolved_at_al := (case resolved_at_au u of Some t \<Rightarrow> Some t | None \<Rightarrow> resolved_at_al row),
          resolved_by := (case resolved_by_au u of Some x \<Rightarrow> Some x | None \<Rightarrow> resolved_by row) \<rparr>"

text \<open>The invariant "resolved implies acknowledged", on the component's alerts and on rows.\<close>

definition ackInv :: "Alert \<Rightarrow> bool" where
  "ackInv a \<longleftrightarrow> (resolved a \<longrightarrow> acknowledged a)"

definition rowAckInv :: "alert \<Rightarrow> bool" where
  "rowAckInv row \<longleftrightarrow> (resolved_al row \<longrightarrow> acknowledged_al row)"

text \<open>
  The contract of a wrapper in the specification's words: it throws the error the call
  returned if there is one, and otherwise returns the call's data as it is. The second
  contract is that of the wrappers that return \<open>data[0]\<close>.
\<close>

definition passesThrough :: "'a response \<Rightarrow> exn + 'a option \<Rightarrow> bool" where
  "passesThrough r res =
     (case error r of Some e \<Rightarrow> res = Inl (Thrown e) | None \<Rightarrow> res = Inr (data r))"

definition passesFirstRow :: "'a list response \<Rightarrow> exn + 'a option \<Rightarrow> bool" where
  "passesFirstRow r res =
     (case error r of
        Some e \<Rightarrow> res = Inl (Thrown e)
      | None \<Rightarrow>
          (case data r of
             None \<Rightarrow> res = Inl TypeError
           | Some [] \<Rightarrow> res = Inr None
           | Some (x # _) \<Rightarrow> res = Inr (Some x)))"

text \<open>The calls that a wrapper added to the trace.\<close>

definition newCalls :: "'s world \<Rightarrow> 's world \<Rightarrow> call list" where
  "newCalls w w' = drop (length (calls w)) (calls w')"







text \<open>
  The outcome of each upload attempt of \<open>submitComplaint\<close>, photo by photo, in the
  specification's terms: the URL of the photo, or the error that was caught. The world is
  threaded as the loop threads it.
\<close>

fun uploadOutcomes ::
  "js_env \<Rightarrow> 's client option \<Rightarrow> complaint option \<Rightarrow> File list \<Rightarrow> 's world \<Rightarrow> (exn + string) list" where
  "uploadOutcomes env supabase complaintData [] w = []"
| "uploadOutcomes env supabase complaintData (photo # rest) w =
     (case (case complaintData of
              None \<Rightarrow> (Inl TypeError, w)
            | Some cd \<Rightarrow> uploadComplaintPhoto env supabase photo (id_c cd) w) of
        (Inr photoUrl, w') \<Rightarrow> Inr photoUrl # uploadOutcomes env supabase complaintData rest w'
      | (Inl e, w') \<Rightarrow>
          Inl e # uploadOutcomes env supabase complaintData rest
                    (consoleError ''Failed to upload photo:'' e w'))"

text \<open>The object \<open>submitComplaint\<close> hands to \<open>insert\<close> in a world, and the world after
  that call.\<close>

definition complaintRow :: "js_env \<Rightarrow> complaint_input \<Rightarrow> 's world \<Rightarrow> complaint_insert" where
  "complaintRow env complaint w =
     complaint_input.extend complaint
       (complaint_insert.fields (toISOString env (int (clock env (clock_reads w)))))"

definition afterInsert :: "js_env \<Rightarrow> 's client \<Rightarrow> complaint_input \<Rightarrow> 's world \<Rightarrow> 's world" where
  "afterInsert env sb complaint w =
     snd (invoke (InsertComplaint [complaintRow env complaint w] True)
            (insert_complaints_single sb [complaintRow env complaint w]) (snd (dateNow env w)))"

fun urlsOf :: "(exn + string) list \<Rightarrow> string list" where
  "urlsOf [] = []"
| "urlsOf (Inr u # outs) = u # urlsOf outs"
| "urlsOf (Inl e # outs) = urlsOf outs"

fun errorsOf :: "(exn + string) list \<Rightarrow> exn list" where
  "errorsOf [] = []"
| "errorsOf (Inr u # outs) = errorsOf outs"
| "errorsOf (Inl e # outs) = e # errorsOf outs"

text \<open>The bucket and the file of an upload call.\<close>

fun uploadedFile :: "call \<Rightarrow> (string \<times> File) option" where
  "uploadedFile (StorageUpload bucket path file) = Some (bucket, file)"
| "uploadedFile c = None"

text \<open>A sample row, a sample client over a call counter, and a sample world. The client
  refuses the upload of a file named \<open>bad.jpg\<close> and every update of a complaint.\<close>

definition exampleReading :: "string \<Rightarrow> string \<Rightarrow> sensor_reading" where
  "exampleReading ty st =
     \<lparr> sensor_id = ''S_001'', sensor_type = ty, value_sr = 1, unit_sr = ''u'', location = ''here'',
       timestamp_sr = ''iso'', status = st, device_id = None, battery_level = None,
       signal_strength = None, id_sr = ''r'' \<rparr>"

definition exampleRows :: "sensor_reading list" where
  "exampleRows = [exampleReading ''flow'' ''warning'', exampleReading ''pressure'' ''normal'',
                  exampleReading ''flow'' ''normal'']"

definition exampleComplaint :: complaint_input where
  "exampleComplaint =
     \<lparr> description_c = ''No water'', location_c = ''Ward 3'', priority = ''high'',
       status_c = ''pending'', submitted_by = ''u1'', photo_urls = None, gps_coordinates = None,
       gps_accuracy = None, resolved_at = None, assigned_to = None, resolution_notes = None,
       category = None \<rparr>"

definition ok :: "'a \<Rightarrow> 'a response" where
  "ok d = \<lparr> data = Some d, error = None \<rparr>"

definition failed :: "string \<Rightarrow> 'a response" where
  "failed msg = \<lparr> data = None, error = Some (PgError msg) \<rparr>"

definition exampleClient :: "nat client" where
  "exampleClient =
     \<lparr> select_sensor_readings = (\<lambda>q s. (ok exampleRows, Suc s)),
       select_complaints = (\<lambda>q s. (ok [], Suc s)),
       select_maintenance_tasks = (\<lambda>q s. (ok [], Suc s)),
       select_alerts = (\<lambda>q s. (ok [], Suc s)),
       insert_sensor_readings =
         (\<lambda>rows s. (ok (map (\<lambda>r. sensor_reading_input.extend r (sensor_reading.fields ''r'')) rows), Suc s)),
       insert_complaints =
         (\<lambda>rows s. (ok (map (\<lambda>r. complaint_insert.extend r (complaint.fields ''c1'')) rows), Suc s)),
       update_complaints = (\<lambda>u i s. (failed ''update refused'', Suc s)),
       insert_maintenance_tasks =
         (\<lambda>rows s. (ok (map (\<lambda>r. maintenance_task_input.extend r (maintenance_task.fields ''m1'')) rows), Suc s)),
       update_maintenance_tasks = (\<lambda>u i s. (ok [], Suc s)),
       insert_alerts =
         (\<lambda>rows s. (ok (map (\<lambda>r. alert_input.extend r (alert.fields ''a1'')) rows), Suc s)),
       update_alerts = (\<lambda>u i s. (ok [], Suc s)),
       insert_sensor_readings_single =
         (\<lambda>rows s. (case rows of
                       [r] \<Rightarrow> ok (sensor_reading_input.extend r (sensor_reading.fields ''r''))
                     | _ \<Rightarrow> failed ''not a single row'', Suc s)),
       insert_complaints_single =
         (\<lambda>rows s. (case rows of
                       [r] \<Rightarrow> ok (complaint_insert.extend r (complaint.fields ''c1''))
                     | _ \<Rightarrow> failed ''not a single row'', Suc s)),
       update_complaints_single = (\<lambda>u i s. (failed ''update refused'', Suc s)),
       insert_maintenance_tasks_single =
         (\<lambda>rows s. (case rows of
                       [r] \<Rightarrow> ok (maintenance_task_input.extend r (maintenance_task.fields ''m1''))
                     | _ \<Rightarrow> failed ''not a single row'', Suc s)),
       update_maintenance_tasks_single = (\<lambda>u i s. (failed ''no such task'', Suc s)),
       insert_alerts_single =
         (\<lambda>rows s. (case rows of
                       [r] \<Rightarrow> ok (alert_input.extend r (alert.fields ''a1''))
                     | _ \<Rightarrow> failed ''not a single row'', Suc s)),
       update_alerts_single = (\<lambda>u i s. (failed ''no such alert'', Suc s)),
       storage_upload =
         (\<lambda>bucket path file s.
            (if name file = ''bad.jpg'' then failed ''upload refused'' else ok path, Suc s)),
       storage_getPublicUrl = (\<lambda>bucket path. ''https://cdn/'' @ bucket @ ''/'' @ path),
       channel_subscribe = (\<lambda>channel table s. (s, Suc s)) \<rparr>"

definition exampleWorld :: "nat world" where
  "exampleWorld = \<lparr> backend = 0, calls = [], console = [], clock_reads = 0, random_reads = 0 \<rparr>"


definition okPhoto :: File where
  "okPhoto = \<lparr> name = ''ok.jpg'', bytes = ''jpeg'' \<rparr>"

definition badPhoto :: File where
  "badPhoto = \<lparr> name = ''bad.jpg'', bytes = ''jpeg'' \<rparr>"

text \<open>The row the sample client returns for the insert of the sample complaint.\<close>

definition exampleInserted :: complaint where
  "exampleInserted =
     complaint_insert.extend (complaintRow exampleEnv exampleComplaint exampleWorld)
       (complaint.fields ''c1'')"

text \<open>An alert that is resolved and not acknowledged, as a caller may hand to \<open>createAlert\<close>.\<close>

definition resolvedUnacknowledged :: alert_input where
  "resolvedUnacknowledged =
     \<lparr> type_al = ''info'', title_al = ''Closed'', description_al = ''closed by import'',
       source_al = ''import'', timestamp_al = ''iso'', acknowledged_al = False, resolved_al = True,
       acknowledged_by = None, acknowledged_at = None, resolved_by = None, resolved_at_al = None,
       sensor_id_al = None, threshold_value = None, current_value = None, location_al = None,
       severity_score = None \<rparr>"

section \<open>The recorded call\<close>

lemma invoke_eq:
  "invoke c f w = (fst (f (backend w)), w\<lparr> backend := snd (f (backend w)), calls := calls w @ [c] \<rparr>)"
  by (simp add: invoke_def split_beta)

lemma newCalls_append: "calls w' = calls w @ cs \<Longrightarrow> newCalls w w' = cs"
  by (simp add: newCalls_def)


section \<open>Threshold alerts of the alert component\<close>

lemma newAlerts_keys:
  "map alertKey (fst (newAlerts env k sd)) =
     (if pressure sd < 3.0 then [(Critical, ''Low System Pressure Detected'')] else []) @
     (if waterFlow sd < 35 then [(Warning, ''Low Water Flow Rate'')] else []) @
     (if quality sd < 90 then [(Warning, ''Water Quality Below Standard'')] else []) @
     (if ph sd < 6.5 \<or> ph sd > 8.5 then [(Warning, ''pH Level Out of Range'')] else [])"
  by (simp add: newAlerts_def alertKey_def Let_def)

lemma staticAlerts_keys:
  "map alertKey staticAlerts =
     [(Critical, ''Pipeline Leak Detected''), (Info, ''Scheduled Maintenance Reminder''),
      (Warning, ''Unusual Consumption Pattern'')]"
  by (simp add: staticAlerts_def alertKey_def)

lemma generateAlerts_key_iff:
  "(\<exists>a \<in> set (generateAlerts env k sd). alertKey a = x) \<longleftrightarrow>
     x \<in> set (map alertKey (fst (newAlerts env k sd)) @ map alertKey staticAlerts)"
  by (simp add: generateAlerts_def image_iff Bex_def) metis

text \<open>
  C1. For every sensor data, the alerts pushed by the four threshold checks are, in this
  order and each at most once: the critical alert 'Low System Pressure Detected' exactly
  when pressure < 3.0, the warning 'Low Water Flow Rate' exactly when waterFlow < 35, the
  warning 'Water Quality Below Standard' exactly when quality < 90, and the warning
  'pH Level Out of Range' exactly when ph < 6.5 or ph > 8.5; nothing else is pushed. The
  list stored is these alerts followed by the three static ones, so each of the four
  alerts is in the stored list exactly under its condition.
\<close>

theorem threshold_alerts_exact:
  "map alertKey (fst (newAlerts env k sd)) =
     (if pressure sd < 3.0 then [(Critical, ''Low System Pressure Detected'')] else []) @
     (if waterFlow sd < 35 then [(Warning, ''Low Water Flow Rate'')] else []) @
     (if quality sd < 90 then [(Warning, ''Water Quality Below Standard'')] else []) @
     (if ph sd < 6.5 \<or> ph sd > 8.5 then [(Warning, ''pH Level Out of Range'')] else [])
   \<and> generateAlerts env k sd = fst (newAlerts env k sd) @ staticAlerts
   \<and> ((\<exists>a \<in> set (generateAlerts env k sd). alertKey a = (Critical, ''Low System Pressure Detected''))
        \<longleftrightarrow> pressure sd < 3.0)
   \<and> ((\<exists>a \<in> set (generateAlerts env k sd). alertKey a = (Warning, ''Low Water Flow Rate''))
        \<longleftrightarrow> waterFlow sd < 35)
   \<and> ((\<exists>a \<in> set (generateAlerts env k sd). alertKey a = (Warning, ''Water Quality Below Standard''))
        \<longleftrightarrow> quality sd < 90)
   \<and> ((\<exists>a \<in> set (generateAlerts env k sd). alertKey a = (Warning, ''pH Level Out of Range''))
        \<longleftrightarrow> (ph sd < 6.5 \<or> ph sd > 8.5))"
proof (intro conjI)
  show "generateAlerts env k sd = fst (newAlerts env k sd) @ staticAlerts"
    by (simp add: generateAlerts_def)
qed (simp_all only: newAlerts_keys generateAlerts_key_iff staticAlerts_keys, simp_all)

theorem threshold_alerts_exact_witness:
  "map alertKey (generateAlerts exampleEnv 0 lowReadings) =
     [(Critical, ''Low System Pressure Detected''), (Warning, ''Low Water Flow Rate''),
      (Warning, ''pH Level Out of Range''), (Critical, ''Pipeline Leak Detected''),
      (Info, ''Scheduled Maintenance Reminder''), (Warning, ''Unusual Consumption Pattern'')]
   \<and> (\<exists>a \<in> set (generateAlerts exampleEnv 0 lowReadings).
         alertKey a = (Critical, ''Low System Pressure Detected''))
   \<and> \<not> (\<exists>a \<in> set (generateAlerts exampleEnv 0 lowReadings).
         alertKey a = (Warning, ''Water Quality Below Standard''))"
proof -
  have c: "pressure lowReadings < 3.0" "waterFlow lowReadings < 35"
    "\<not> quality lowReadings < 90" "ph lowReadings > 8.5"
    by (simp_all add: lowReadings_def)
  note t = threshold_alerts_exact [of exampleEnv 0 lowReadings]
  have k: "map alertKey (fst (newAlerts exampleEnv 0 lowReadings)) =
      [(Critical, ''Low System Pressure Detected''), (Warning, ''Low Water Flow Rate''),
       (Warning, ''pH Level Out of Range'')]"
    using t [THEN conjunct1] c by simp
  have g: "generateAlerts exampleEnv 0 lowReadings
             = fst (newAlerts exampleEnv 0 lowReadings) @ staticAlerts"
    by (rule t [THEN conjunct2, THEN conjunct1])
  have p: "\<exists>a \<in> set (generateAlerts exampleEnv 0 lowReadings).
             alertKey a = (Critical, ''Low System Pressure Detected'')"
    using t [THEN conjunct2, THEN conjunct2, THEN conjunct1] c(1) by blast
  have q: "\<not> (\<exists>a \<in> set (generateAlerts exampleEnv 0 lowReadings).
             alertKey a = (Warning, ''Water Quality Below Standard''))"
    using t [THEN conjunct2, THEN conjunct2, THEN conjunct2, THEN conjunct2, THEN conjunct1] c(3)
    by blast
  have "map alertKey (generateAlerts exampleEnv 0 lowReadings) =
     [(Critical, ''Low System Pressure Detected''), (Warning, ''Low Water Flow Rate''),
      (Warning, ''pH Level Out of Range''), (Critical, ''Pipeline Leak Detected''),
      (Info, ''Scheduled Maintenance Reminder''), (Warning, ''Unusual Consumption Pattern'')]"
    by (simp only: g map_append k staticAlerts_keys) simp
  with p q show ?thesis by blast
qed

section \<open>The acknowledge handler of the alert component\<close>

text \<open>
  C10. \<open>acknowledgeAlert\<close> keeps the length and the order of the list (the ids are the same,
  position by position), leaves every alert with another id as it is, and on an alert with
  the given id changes nothing but \<open>acknowledged\<close>, which becomes true: type, title,
  description, timestamp, source, resolved and actions are the same.
\<close>

theorem acknowledgeAlert_frame:
  "length (acknowledgeAlert alerts x) = length alerts \<and>
   map id_ui (acknowledgeAlert alerts x) = map id_ui alerts \<and>
   (\<forall>i < length alerts.
      (id_ui (alerts ! i) \<noteq> x \<longrightarrow> acknowledgeAlert alerts x ! i = alerts ! i) \<and>
      (id_ui (alerts ! i) = x \<longrightarrow>
         acknowledgeAlert alerts x ! i = (alerts ! i)\<lparr>acknowledged := True\<rparr> \<and>
         acknowledged (acknowledgeAlert alerts x ! i) \<and>
         id_ui (acknowledgeAlert alerts x ! i) = id_ui (alerts ! i) \<and>
         type_ui (acknowledgeAlert alerts x ! i) = type_ui (alerts ! i) \<and>
         title (acknowledgeAlert alerts x ! i) = title (alerts ! i) \<and>
         description (acknowledgeAlert alerts x ! i) = description (alerts ! i) \<and>
         timestamp (acknowledgeAlert alerts x ! i) = timestamp (alerts ! i) \<and>
         source (acknowledgeAlert alerts x ! i) = source (alerts ! i) \<and>
         resolved (acknowledgeAlert alerts x ! i) = resolved (alerts ! i) \<and>
         actions (acknowledgeAlert alerts x ! i) = actions (alerts ! i)))"
  by (simp add: acknowledgeAlert_def comp_def)

theorem acknowledgeAlert_frame_witness:
  "length (acknowledgeAlert staticAlerts ''leak-001'') = 3 \<and>
   acknowledgeAlert staticAlerts ''leak-001'' ! 0 = (staticAlerts ! 0)\<lparr>acknowledged := True\<rparr> \<and>
   resolved (acknowledgeAlert staticAlerts ''leak-001'' ! 0) = False \<and>
   acknowledgeAlert staticAlerts ''leak-001'' ! 2 = staticAlerts ! 2"
proof -
  have l: "length staticAlerts = 3" and i0: "id_ui (staticAlerts ! 0) = ''leak-001''"
    and i2: "id_ui (staticAlerts ! 2) \<noteq> ''leak-001''" and r: "resolved (staticAlerts ! 0) = False"
    by (simp_all add: staticAlerts_def)
  from acknowledgeAlert_frame [of staticAlerts "''leak-001''"] l i0 i2 r
  show ?thesis by simp
qed

section \<open>The simulated feed of the application\<close>

lemma simulation_inv: "simInv (simulation env n)"
  by (cases n) (auto simp add: simInv_def initialSensorData_def simulationStep_def max_def min_def)

text \<open>
  C9. Every state the 3-second timer reaches from the initial state, whatever
  \<open>Math.random()\<close> returns, has pressure >= 0, turbidity >= 0, quality in [85, 100] and ph in
  [6.5, 8.5]; so the condition ph < 6.5 or ph > 8.5 is false on it, and the alert component
  does not raise 'pH Level Out of Range' on it.
\<close>

theorem app_simulation_bounds:
  "simInv (simulation env n)
   \<and> \<not> (ph (simulation env n) < 6.5 \<or> ph (simulation env n) > 8.5)
   \<and> (Warning, ''pH Level Out of Range'') \<notin> set (map alertKey (generateAlerts env k (simulation env n)))"
proof -
  have i: "simInv (simulation env n)" by (rule simulation_inv)
  then have p: "\<not> (ph (simulation env n) < 6.5 \<or> ph (simulation env n) > 8.5)"
    by (auto simp: simInv_def)
  have "(Warning, ''pH Level Out of Range'')
          \<notin> set (map alertKey (fst (newAlerts env k (simulation env n))) @ map alertKey staticAlerts)"
    using p by (simp only: newAlerts_keys staticAlerts_keys) simp
  then show ?thesis using i p by (simp add: generateAlerts_def)
qed

theorem app_simulation_bounds_witness:
  "simInv (simulation exampleEnv 2) \<and> 6.5 \<le> ph (simulation exampleEnv 2)
   \<and> ph (simulation exampleEnv 2) \<le> 8.5"
  using app_simulation_bounds [of exampleEnv 2] by (simp add: simInv_def)

section \<open>The reduction of getSystemHealth\<close>

lemma fromEntries_snoc: "fromEntries (es @ [(k, v)]) = (fromEntries es)(k \<mapsto> v)"
  by (simp add: fromEntries_def)

lemma fromEntries_dom_aux:
  "dom (foldl (\<lambda>obj (k, v). obj(k \<mapsto> v)) m es) = dom m \<union> fst ` set es"
  by (induction es arbitrary: m) (auto split: prod.splits)

lemma map_has_fromEntries: "map_has m k \<longleftrightarrow> fromEntries m k \<noteq> None"
proof -
  have "dom (fromEntries m) = fst ` set m"
    by (simp add: fromEntries_def fromEntries_dom_aux)
  then show ?thesis by (auto simp: map_has_def dom_def)
qed

lemma map_set_absent: "\<not> map_has m k \<Longrightarrow> map_set m k v = m @ [(k, v)]"
  by (induction m) (auto simp: map_has_def)

lemma healthMap_fold:
  "fromEntries (foldl (\<lambda>healthMap reading.
              if \<not> map_has healthMap (sensor_type reading)
              then map_set healthMap (sensor_type reading) (status reading)
              else healthMap) hm rows) k =
   (case fromEntries hm k of
      Some v \<Rightarrow> Some v
    | None \<Rightarrow> map_option status (find (\<lambda>r. sensor_type r = k) rows))"
proof (induction rows arbitrary: hm)
  case Nil
  then show ?case by (simp split: option.splits)
next
  case (Cons r rows)
  show ?case
  proof (cases "map_has hm (sensor_type r)")
    case True
    then have "fromEntries hm (sensor_type r) \<noteq> None" by (simp add: map_has_fromEntries)
    with True Cons.IH [of hm] show ?thesis by (auto split: option.splits)
  next
    case False
    then have n: "fromEntries hm (sensor_type r) = None" by (simp add: map_has_fromEntries)
    have e: "fromEntries (map_set hm (sensor_type r) (status r)) = (fromEntries hm)(sensor_type r \<mapsto> status r)"
      using False by (simp add: map_set_absent fromEntries_snoc)
    show ?thesis using False n Cons.IH [of "map_set hm (sensor_type r) (status r)"]
      by (auto simp: e split: option.splits)
  qed
qed

lemma systemHealthOf_find:
  "systemHealthOf rows k = map_option status (find (\<lambda>r. sensor_type r = k) rows)"
  using healthMap_fold [of "[]" rows k]
  by (simp add: systemHealthOf_def healthMapOf_def fromEntries_def)

lemma systemHealthOf_dom: "dom (systemHealthOf rows) = sensor_type ` set rows"
  by (auto simp: dom_def systemHealthOf_find find_None_iff image_iff)

lemma find_append_known:
  "k \<in> sensor_type ` set rows \<Longrightarrow>
     find (\<lambda>r. sensor_type r = k) (rows @ rest) = find (\<lambda>r. sensor_type r = k) rows"
  by (induction rows) auto

lemma find_append_unknown:
  "k \<notin> sensor_type ` set rows \<Longrightarrow>
     find (\<lambda>r. sensor_type r = k) (rows @ rest) = find (\<lambda>r. sensor_type r = k) rest"
  by (induction rows) auto

text \<open>
  C6. The object returned by the reduction of \<open>getSystemHealth\<close> maps a sensor type to the
  status of the first row of that type in the list (the most recent one, the list being
  ordered newest first); its keys are exactly the sensor types that occur in the list; a
  further row of a type that already has an entry changes nothing. Both revisions of
  \<open>getSystemHealth\<close> return this reduction of the rows when the call returns no error.
\<close>

theorem systemHealth_first_occurrence:
  "systemHealthOf rows k = map_option status (find (\<lambda>r. sensor_type r = k) rows)
   \<and> dom (systemHealthOf rows) = sensor_type ` set rows
   \<and> (sensor_type r \<in> sensor_type ` set rows \<longrightarrow> systemHealthOf (rows @ [r]) = systemHealthOf rows)
   \<and> (error (fst (select_sensor_readings sb healthQuery (backend w))) = None \<longrightarrow>
        fst (getSystemHealth (Some sb) w)
          = Inr (systemHealthOf (orEmpty (data (fst (select_sensor_readings sb healthQuery (backend w)))))))
   \<and> (error (fst (select_sensor_readings sb healthQuery (backend w))) = None \<longrightarrow>
        data (fst (select_sensor_readings sb healthQuery (backend w))) = Some rows \<longrightarrow>
        fst (getSystemHealth_v1 sb w) = Inr (systemHealthOf rows))"
proof -
  have a: "sensor_type r \<in> sensor_type ` set rows \<longrightarrow> systemHealthOf (rows @ [r]) = systemHealthOf rows"
  proof
    assume m: "sensor_type r \<in> sensor_type ` set rows"
    show "systemHealthOf (rows @ [r]) = systemHealthOf rows"
    proof
      fix k show "systemHealthOf (rows @ [r]) k = systemHealthOf rows k"
      proof (cases "k \<in> sensor_type ` set rows")
        case True then show ?thesis by (simp add: systemHealthOf_find find_append_known)
      next
        case False
        with m have "sensor_type r \<noteq> k" by auto
        with False show ?thesis
          by (auto simp add: systemHealthOf_find find_append_unknown find_None_iff image_iff)
      qed
    qed
  qed
  show ?thesis
    apply (intro conjI)
        apply (rule systemHealthOf_find)
       apply (rule systemHealthOf_dom)
      apply (rule a)
     apply (simp add: getSystemHealth_def invoke_def split: prod.splits option.splits)
    apply (simp add: getSystemHealth_v1_def invoke_def split: prod.splits option.splits)
    done
qed

theorem systemHealth_first_occurrence_witness:
  "systemHealthOf exampleRows ''flow'' = Some ''warning''
   \<and> dom (systemHealthOf exampleRows) = {''flow'', ''pressure''}
   \<and> systemHealthOf (exampleRows @ [exampleReading ''pressure'' ''critical'']) = systemHealthOf exampleRows
   \<and> fst (getSystemHealth (Some exampleClient) exampleWorld) = Inr (systemHealthOf exampleRows)
   \<and> fst (getSystemHealth_v1 exampleClient exampleWorld) = Inr (systemHealthOf exampleRows)"
proof -
  note t = systemHealth_first_occurrence
    [of exampleRows "''flow''" "exampleReading ''pressure'' ''critical''" exampleClient exampleWorld]
  have r: "fst (select_sensor_readings exampleClient healthQuery (backend exampleWorld)) = ok exampleRows"
    by (simp add: exampleClient_def)
  have m: "sensor_type (exampleReading ''pressure'' ''critical'') \<in> sensor_type ` set exampleRows"
    by (simp add: exampleRows_def exampleReading_def)
  have "systemHealthOf exampleRows ''flow'' = Some ''warning''"
    using t [THEN conjunct1] by (simp add: exampleRows_def exampleReading_def)
  moreover have "dom (systemHealthOf exampleRows) = {''flow'', ''pressure''}"
    using t [THEN conjunct2, THEN conjunct1] by (auto simp add: exampleRows_def exampleReading_def)
  moreover have "systemHealthOf (exampleRows @ [exampleReading ''pressure'' ''critical''])
                   = systemHealthOf exampleRows"
    using t [THEN conjunct2, THEN conjunct2, THEN conjunct1] m by blast
  moreover have "fst (getSystemHealth (Some exampleClient) exampleWorld) = Inr (systemHealthOf exampleRows)"
    using t [THEN conjunct2, THEN conjunct2, THEN conjunct2, THEN conjunct1]
    by (simp add: r ok_def orEmpty_def)
  moreover have "fst (getSystemHealth_v1 exampleClient exampleWorld) = Inr (systemHealthOf exampleRows)"
    using t [THEN conjunct2, THEN conjunct2, THEN conjunct2, THEN conjunct2]
    by (simp add: r ok_def)
  ultimately show ?thesis by blast
qed

section \<open>The wrappers without a client\<close>

text \<open>
  C8. When \<open>supabase\<close> is \<open>null\<close>, the seven read operations return an empty result (an
  empty list, an empty object for \<open>getSystemHealth\<close>) and only write a warning to the
  console; \<open>subscribeTo\<close> returns the no-op subscription; the eight write operations throw
  \<open>Error('Supabase not configured')\<close> and leave the world as it is.
\<close>

theorem not_configured_behaviour:
  "getLatestSensorReadings None w
     = (Inr [], consoleWarn ''Supabase not configured, returning mock data'' w)
   \<and> getSensorReadingsByType None sensorType w
     = (Inr [], consoleWarn ''Supabase not configured, returning mock data'' w)
   \<and> getComplaints None w
     = (Inr [], consoleWarn ''Supabase not configured, returning mock data'' w)
   \<and> getMaintenanceTasks None w
     = (Inr [], consoleWarn ''Supabase not configured, returning mock data'' w)
   \<and> getAlerts None w
     = (Inr [], consoleWarn ''Supabase not configured, returning mock data'' w)
   \<and> getConsumptionAnalytics env None days w
     = (Inr [], consoleWarn ''Supabase not configured, returning mock data'' w)
   \<and> getSystemHealth None w
     = (Inr Map.empty, consoleWarn ''Supabase not configured, returning mock data'' w)
   \<and> subscribeTo None table w
     = (NoopSubscription, consoleWarn ''Supabase not configured, real-time subscriptions disabled'' w)
   \<and> insertSensorReading None reading w = (Inl (Error ''Supabase not configured''), w)
   \<and> submitComplaint env None complaint photos w = (Inl (Error ''Supabase not configured''), w)
   \<and> updateComplaintStatus env None cid st assignedTo resolutionNotes w
     = (Inl (Error ''Supabase not configured''), w)
   \<and> createMaintenanceTask None mt w = (Inl (Error ''Supabase not configured''), w)
   \<and> completeMaintenanceTask env None tid notes taskPhotos w
     = (Inl (Error ''Supabase not configured''), w)
   \<and> createAlert None al w = (Inl (Error ''Supabase not configured''), w)
   \<and> acknowledgeAlert_api env None aid userId w = (Inl (Error ''Supabase not configured''), w)
   \<and> resolveAlert_api env None aid userId w = (Inl (Error ''Supabase not configured''), w)
   \<and> calls (consoleWarn msg w) = calls w \<and> backend (consoleWarn msg w) = backend w"
  by (simp add: getLatestSensorReadings_def getSensorReadingsByType_def getComplaints_def
      getMaintenanceTasks_def getAlerts_def getConsumptionAnalytics_def getSystemHealth_def
      subscribeTo_def insertSensorReading_def submitComplaint_def updateComplaintStatus_def
      createMaintenanceTask_def completeMaintenanceTask_def createAlert_def
      acknowledgeAlert_api_def resolveAlert_api_def notConfigured_def consoleWarn_def)

section \<open>The update object of updateComplaintStatus\<close>

lemma complaintStatusUpdateData_fields:
  "status_cu (fst (complaintStatusUpdateData env st assignedTo resolutionNotes w)) = Some st"
  "resolved_at_cu (fst (complaintStatusUpdateData env st assignedTo resolutionNotes w))
     = (if st = ''resolved'' then Some (toISOString env (int (clock env (clock_reads w)))) else None)"
  "assigned_to_cu (fst (complaintStatusUpdateData env st assignedTo resolutionNotes w))
     = (if truthy assignedTo then assignedTo else None)"
  "resolution_notes_cu (fst (complaintStatusUpdateData env st assignedTo resolutionNotes w))
     = (if truthy resolutionNotes then resolutionNotes else None)"
  "photo_urls_cu (fst (complaintStatusUpdateData env st assignedTo resolutionNotes w)) = None"
  by (simp_all add: complaintStatusUpdateData_def emptyComplaintUpdate_def dateNow_def Let_def)

lemma complaintStatusUpdateData_v1_fields:
  "status_cu (fst (complaintStatusUpdateData_v1 env st assignedTo w)) = Some st"
  "resolved_at_cu (fst (complaintStatusUpdateData_v1 env st assignedTo w))
     = (if st = ''resolved'' then Some (toISOString env (int (clock env (clock_reads w)))) else None)"
  "assigned_to_cu (fst (complaintStatusUpdateData_v1 env st assignedTo w))
     = (if truthy assignedTo then assignedTo else None)"
  by (simp_all add: complaintStatusUpdateData_v1_def emptyComplaintUpdate_def dateNow_def Let_def)

lemma complaintStatusUpdateData_calls:
  "calls (snd (complaintStatusUpdateData env st assignedTo resolutionNotes w)) = calls w"
  "calls (snd (complaintStatusUpdateData_v1 env st assignedTo w)) = calls w"
  by (simp_all add: complaintStatusUpdateData_def complaintStatusUpdateData_v1_def dateNow_def Let_def)

text \<open>
  C4, as the code has it. In both revisions the update object of \<open>updateComplaintStatus\<close>
  carries \<open>status\<close>; it carries \<open>resolved_at\<close> exactly when the new status is
  \<open>'resolved'\<close>; and it carries \<open>assigned_to\<close> exactly when \<open>assignedTo\<close> is given and is not
  the empty string (the test is \<open>if (assignedTo)\<close>), with the value given. This object is
  the one handed to the single update call the wrapper makes.
\<close>

theorem updateComplaintStatus_update_object:
  "(resolved_at_cu (fst (complaintStatusUpdateData env st assignedTo resolutionNotes w)) \<noteq> None
      \<longleftrightarrow> st = ''resolved'')
   \<and> (assigned_to_cu (fst (complaintStatusUpdateData env st assignedTo resolutionNotes w)) \<noteq> None
      \<longleftrightarrow> assignedTo \<noteq> None \<and> assignedTo \<noteq> Some [])
   \<and> (assigned_to_cu (fst (complaintStatusUpdateData env st assignedTo resolutionNotes w)) \<noteq> None
      \<longrightarrow> assigned_to_cu (fst (complaintStatusUpdateData env st assignedTo resolutionNotes w)) = assignedTo)
   \<and> status_cu (fst (complaintStatusUpdateData env st assignedTo resolutionNotes w)) = Some st
   \<and> newCalls w (snd (updateComplaintStatus env (Some sb) cid st assignedTo resolutionNotes w))
        = [UpdateComplaint (fst (complaintStatusUpdateData env st assignedTo resolutionNotes w)) cid True]
   \<and> (resolved_at_cu (fst (complaintStatusUpdateData_v1 env st assignedTo w)) \<noteq> None
      \<longleftrightarrow> st = ''resolved'')
   \<and> (assigned_to_cu (fst (complaintStatusUpdateData_v1 env st assignedTo w)) \<noteq> None
      \<longleftrightarrow> assignedTo \<noteq> None \<and> assignedTo \<noteq> Some [])
   \<and> (assigned_to_cu (fst (complaintStatusUpdateData_v1 env st assignedTo w)) \<noteq> None
      \<longrightarrow> assigned_to_cu (fst (complaintStatusUpdateData_v1 env st assignedTo w)) = assignedTo)
   \<and> status_cu (fst (complaintStatusUpdateData_v1 env st assignedTo w)) = Some st
   \<and> newCalls w (snd (updateComplaintStatus_v1 env sb cid st assignedTo w))
        = [UpdateComplaint (fst (complaintStatusUpdateData_v1 env st assignedTo w)) cid False]"
proof -
  have t: "truthy assignedTo \<longleftrightarrow> assignedTo \<noteq> None \<and> assignedTo \<noteq> Some []"
    by (cases assignedTo) (simp_all add: truthy_def)
  have c2: "newCalls w (snd (updateComplaintStatus env (Some sb) cid st assignedTo resolutionNotes w))
        = [UpdateComplaint (fst (complaintStatusUpdateData env st assignedTo resolutionNotes w)) cid True]"
  proof -
    obtain u w1 where e: "complaintStatusUpdateData env st assignedTo resolutionNotes w = (u, w1)"
      by (cases "complaintStatusUpdateData env st assignedTo resolutionNotes w")
    with complaintStatusUpdateData_calls(1) [of env st assignedTo resolutionNotes w]
    have "calls w1 = calls w" by simp
    then show ?thesis
      by (simp add: e updateComplaintStatus_def invoke_def newCalls_def split: prod.splits)
  qed
  have c1: "newCalls w (snd (updateComplaintStatus_v1 env sb cid st assignedTo w))
        = [UpdateComplaint (fst (complaintStatusUpdateData_v1 env st assignedTo w)) cid False]"
  proof -
    obtain u w1 where e: "complaintStatusUpdateData_v1 env st assignedTo w = (u, w1)"
      by (cases "complaintStatusUpdateData_v1 env st assignedTo w")
    with complaintStatusUpdateData_calls(2) [of env st assignedTo w]
    have "calls w1 = calls w" by simp
    then show ?thesis
      by (simp add: e updateComplaintStatus_v1_def invoke_def newCalls_def split: prod.splits)
  qed
  show ?thesis
    by (simp only: complaintStatusUpdateData_fields complaintStatusUpdateData_v1_fields c1 c2 t)
       (auto simp: t)
qed

theorem updateComplaintStatus_update_object_witness:
  "resolved_at_cu (fst (complaintStatusUpdateData exampleEnv ''resolved'' (Some ''u7'') None exampleWorld))
     \<noteq> None
   \<and> assigned_to_cu (fst (complaintStatusUpdateData exampleEnv ''resolved'' (Some ''u7'') None exampleWorld))
     = Some ''u7''
   \<and> status_cu (fst (complaintStatusUpdateData exampleEnv ''resolved'' (Some ''u7'') None exampleWorld))
     = Some ''resolved''"
  using updateComplaintStatus_update_object
    [of exampleEnv "''resolved''" "Some ''u7''" None exampleWorld exampleClient "''c1''"]
  by simp

text \<open>
  C4 as stated fails: with the empty string as \<open>assignedTo\<close> an argument is provided, and
  the update object has no \<open>assigned_to\<close>.
\<close>

theorem updateComplaintStatus_empty_assignee:
  "Some '''' \<noteq> (None :: string option)
   \<and> assigned_to_cu (fst (complaintStatusUpdateData exampleEnv ''in-progress'' (Some '''') None exampleWorld))
       = None
   \<and> assigned_to_cu (fst (complaintStatusUpdateData_v1 exampleEnv ''in-progress'' (Some '''') exampleWorld))
       = None"
  by (simp add: complaintStatusUpdateData_def complaintStatusUpdateData_v1_def truthy_def
      emptyComplaintUpdate_def)

section \<open>Resolved implies acknowledged\<close>

lemma generateAlerts_ackInv: "\<forall>a \<in> set (generateAlerts env k sd). ackInv a"
  by (simp add: generateAlerts_def newAlerts_def staticAlerts_def ackInv_def)

lemma acknowledgeAlert_ackInv:
  "\<forall>a \<in> set alerts. ackInv a \<Longrightarrow> \<forall>a \<in> set (acknowledgeAlert alerts x). ackInv a"
  by (auto simp: acknowledgeAlert_def ackInv_def)

lemma resolveAlert_ackInv:
  "\<forall>a \<in> set alerts. ackInv a \<Longrightarrow> \<forall>a \<in> set (resolveAlert alerts x). ackInv a"
  by (auto simp: resolveAlert_def ackInv_def)

lemma alertsAfter_ackInv:
  "\<forall>a \<in> set alerts. ackInv a \<Longrightarrow> \<forall>a \<in> set (alertsAfter env alerts events). ackInv a"
proof (induction env alerts events rule: alertsAfter.induct)
  case (1 env alerts)
  then show ?case by simp
next
  case (2 env alerts k sd es)
  then show ?case using generateAlerts_ackInv by simp
next
  case (3 env alerts x es)
  then show ?case using acknowledgeAlert_ackInv by simp
next
  case (4 env alerts x es)
  then show ?case using resolveAlert_ackInv by simp
qed

lemma alert_update_flags:
  "resolved_au (fst (resolveUpdateData env userId w)) = Some True"
  "acknowledged_au (fst (resolveUpdateData env userId w)) = Some True"
  "acknowledged_au (fst (acknowledgeUpdateData env userId w)) = Some True"
  "resolved_au (fst (acknowledgeUpdateData env userId w)) = None"
  "resolved_au resolveUpdateData_v1 = Some True"
  "acknowledged_au resolveUpdateData_v1 = Some True"
  "acknowledged_au acknowledgeUpdateData_v1 = Some True"
  "resolved_au acknowledgeUpdateData_v1 = None"
  by (simp_all add: resolveUpdateData_def acknowledgeUpdateData_def resolveUpdateData_v1_def
      acknowledgeUpdateData_v1_def emptyAlertUpdate_def dateNow_def Let_def split: prod.splits)

lemma alert_update_calls:
  "calls (snd (resolveUpdateData env userId w)) = calls w"
  "calls (snd (acknowledgeUpdateData env userId w)) = calls w"
  by (simp_all add: resolveUpdateData_def acknowledgeUpdateData_def dateNow_def Let_def)

lemma resolveAlert_api_calls:
  "newCalls w (snd (resolveAlert_api env (Some sb) aid userId w))
     = [UpdateAlert (fst (resolveUpdateData env userId w)) aid True]"
proof -
  obtain u w1 where e: "resolveUpdateData env userId w = (u, w1)"
    by (cases "resolveUpdateData env userId w")
  with alert_update_calls(1) [of env userId w] have "calls w1 = calls w" by simp
  then show ?thesis
    by (simp add: e resolveAlert_api_def invoke_def newCalls_def split: prod.splits)
qed

lemma acknowledgeAlert_api_calls:
  "newCalls w (snd (acknowledgeAlert_api env (Some sb) aid userId w))
     = [UpdateAlert (fst (acknowledgeUpdateData env userId w)) aid True]"
proof -
  obtain u w1 where e: "acknowledgeUpdateData env userId w = (u, w1)"
    by (cases "acknowledgeUpdateData env userId w")
  with alert_update_calls(2) [of env userId w] have "calls w1 = calls w" by simp
  then show ?thesis
    by (simp add: e acknowledgeAlert_api_def invoke_def newCalls_def split: prod.splits)
qed

lemma alert_v1_calls:
  "newCalls w (snd (resolveAlert_v1 sb aid w)) = [UpdateAlert resolveUpdateData_v1 aid False]"
  "newCalls w (snd (acknowledgeAlert_v1 sb aid w)) = [UpdateAlert acknowledgeUpdateData_v1 aid False]"
  by (simp_all add: resolveAlert_v1_def acknowledgeAlert_v1_def invoke_def newCalls_def
      split: prod.splits)

lemma applyAlertUpdate_flags:
  "acknowledged_al (applyAlertUpdate u row)
     = (case acknowledged_au u of Some b \<Rightarrow> b | None \<Rightarrow> acknowledged_al row)"
  "resolved_al (applyAlertUpdate u row)
     = (case resolved_au u of Some b \<Rightarrow> b | None \<Rightarrow> resolved_al row)"
  by (simp_all add: applyAlertUpdate_def)

lemma applied_alert_update:
  "resolved_al (applyAlertUpdate (fst (resolveUpdateData env userId w)) row)"
  "acknowledged_al (applyAlertUpdate (fst (resolveUpdateData env userId w)) row)"
  "resolved_al (applyAlertUpdate resolveUpdateData_v1 row)"
  "acknowledged_al (applyAlertUpdate resolveUpdateData_v1 row)"
  "acknowledged_al (applyAlertUpdate (fst (acknowledgeUpdateData env userId w)) row)"
  "resolved_al (applyAlertUpdate (fst (acknowledgeUpdateData env userId w)) row) = resolved_al row"
  "acknowledged_al (applyAlertUpdate acknowledgeUpdateData_v1 row)"
  "resolved_al (applyAlertUpdate acknowledgeUpdateData_v1 row) = resolved_al row"
  "rowAckInv (applyAlertUpdate (fst (resolveUpdateData env userId w)) row)"
  "rowAckInv (applyAlertUpdate (fst (acknowledgeUpdateData env userId w)) row)"
  "rowAckInv (applyAlertUpdate resolveUpdateData_v1 row)"
  "rowAckInv (applyAlertUpdate acknowledgeUpdateData_v1 row)"
  by (simp_all add: applyAlertUpdate_flags alert_update_flags rowAckInv_def)

lemma alertsAfter_start_ackInv: "\<forall>a \<in> set (alertsAfter env [] events). ackInv a"
  by (rule alertsAfter_ackInv) simp

lemma resolveAlert_sets_both:
  "\<forall>i < length alerts. id_ui (alerts ! i) = x \<longrightarrow>
     resolved (resolveAlert alerts x ! i) \<and> acknowledged (resolveAlert alerts x ! i)"
  by (simp add: resolveAlert_def)

lemma acknowledgeAlert_keeps_resolved:
  "\<forall>i < length alerts.
     resolved (acknowledgeAlert alerts x ! i) = resolved (alerts ! i)
     \<and> (id_ui (alerts ! i) = x \<longrightarrow> acknowledged (acknowledgeAlert alerts x ! i))"
  by (simp add: acknowledgeAlert_def)

lemma handlers_keep_ackInv:
  "(\<forall>a \<in> set alerts. ackInv a) \<longrightarrow>
     (\<forall>a \<in> set (acknowledgeAlert alerts x). ackInv a) \<and> (\<forall>a \<in> set (resolveAlert alerts x). ackInv a)"
  using acknowledgeAlert_ackInv resolveAlert_ackInv by blast

lemma createAlert_calls:
  "newCalls w (snd (createAlert (Some sb) al w)) = [InsertAlert [al] True]"
  "newCalls w (snd (createAlert_v1 sb al w)) = [InsertAlert [al] False]"
  by (simp_all add: createAlert_def createAlert_v1_def invoke_eq newCalls_def split_beta)

text \<open>
  C3, as the code has it. Every alert in every state of the component's alert list
  satisfies "resolved implies acknowledged": the generated and static alerts do, and the
  two handlers keep it. The component's \<open>resolveAlert\<close> sets both flags on the alert it
  selects, and its \<open>acknowledgeAlert\<close> sets \<open>acknowledged\<close> and leaves \<open>resolved\<close> of every
  alert as it was. In both revisions of the API, the single update made by \<open>resolveAlert\<close>
  carries \<open>resolved: true\<close> and \<open>acknowledged: true\<close> together, and the one made by
  \<open>acknowledgeAlert\<close> carries \<open>acknowledged: true\<close> and no \<open>resolved\<close>; applied to a row,
  the first yields a row that is resolved and acknowledged, the second a row that is
  acknowledged and whose \<open>resolved\<close> is unchanged, so a row with the invariant keeps it.
  \<open>createAlert\<close> establishes nothing: its single call inserts the caller's record as it
  is, flags included.
\<close>

theorem resolved_implies_acknowledged:
  "(\<forall>a \<in> set (alertsAfter env [] events). ackInv a)
   \<and> (\<forall>i < length alerts. id_ui (alerts ! i) = x \<longrightarrow>
         resolved (resolveAlert alerts x ! i) \<and> acknowledged (resolveAlert alerts x ! i))
   \<and> (\<forall>i < length alerts.
         resolved (acknowledgeAlert alerts x ! i) = resolved (alerts ! i)
         \<and> (id_ui (alerts ! i) = x \<longrightarrow> acknowledged (acknowledgeAlert alerts x ! i)))
   \<and> ((\<forall>a \<in> set alerts. ackInv a) \<longrightarrow>
         (\<forall>a \<in> set (acknowledgeAlert alerts x). ackInv a) \<and> (\<forall>a \<in> set (resolveAlert alerts x). ackInv a))
   \<and> resolved_au (fst (resolveUpdateData env userId w)) = Some True
   \<and> acknowledged_au (fst (resolveUpdateData env userId w)) = Some True
   \<and> acknowledged_au (fst (acknowledgeUpdateData env userId w)) = Some True
   \<and> resolved_au (fst (acknowledgeUpdateData env userId w)) = None
   \<and> resolved_au resolveUpdateData_v1 = Some True
   \<and> acknowledged_au resolveUpdateData_v1 = Some True
   \<and> acknowledged_au acknowledgeUpdateData_v1 = Some True
   \<and> resolved_au acknowledgeUpdateData_v1 = None
   \<and> newCalls w (snd (resolveAlert_api env (Some sb) aid userId w))
        = [UpdateAlert (fst (resolveUpdateData env userId w)) aid True]
   \<and> newCalls w (snd (acknowledgeAlert_api env (Some sb) aid userId w))
        = [UpdateAlert (fst (acknowledgeUpdateData env userId w)) aid True]
   \<and> newCalls w (snd (resolveAlert_v1 sb aid w)) = [UpdateAlert resolveUpdateData_v1 aid False]
   \<and> newCalls w (snd (acknowledgeAlert_v1 sb aid w)) = [UpdateAlert acknowledgeUpdateData_v1 aid False]
   \<and> resolved_al (applyAlertUpdate (fst (resolveUpdateData env userId w)) row)
   \<and> acknowledged_al (applyAlertUpdate (fst (resolveUpdateData env userId w)) row)
   \<and> resolved_al (applyAlertUpdate resolveUpdateData_v1 row)
   \<and> acknowledged_al (applyAlertUpdate resolveUpdateData_v1 row)
   \<and> acknowledged_al (applyAlertUpdate (fst (acknowledgeUpdateData env userId w)) row)
   \<and> resolved_al (applyAlertUpdate (fst (acknowledgeUpdateData env userId w)) row) = resolved_al row
   \<and> acknowledged_al (applyAlertUpdate acknowledgeUpdateData_v1 row)
   \<and> resolved_al (applyAlertUpdate acknowledgeUpdateData_v1 row) = resolved_al row
   \<and> rowAckInv (applyAlertUpdate (fst (resolveUpdateData env userId w)) row)
   \<and> rowAckInv (applyAlertUpdate (fst (acknowledgeUpdateData env userId w)) row)
   \<and> rowAckInv (applyAlertUpdate resolveUpdateData_v1 row)
   \<and> rowAckInv (applyAlertUpdate acknowledgeUpdateData_v1 row)
   \<and> newCalls w (snd (createAlert (Some sb) al w)) = [InsertAlert [al] True]
   \<and> newCalls w (snd (createAlert_v1 sb al w)) = [InsertAlert [al] False]"
  by (intro conjI alertsAfter_start_ackInv resolveAlert_sets_both acknowledgeAlert_keeps_resolved
      handlers_keep_ackInv alert_update_flags applied_alert_update resolveAlert_api_calls
      acknowledgeAlert_api_calls alert_v1_calls createAlert_calls)

theorem resolved_implies_acknowledged_witness:
  "resolved (resolveAlert staticAlerts ''leak-001'' ! 0)
   \<and> acknowledged (resolveAlert staticAlerts ''leak-001'' ! 0)
   \<and> acknowledged (acknowledgeAlert staticAlerts ''leak-001'' ! 0)
   \<and> resolved (acknowledgeAlert staticAlerts ''leak-001'' ! 0) = False
   \<and> resolved (acknowledgeAlert staticAlerts ''leak-001'' ! 2) = True"
proof -
  note t = resolved_implies_acknowledged [where alerts = staticAlerts and x = "''leak-001''"]
  have l: "0 < length staticAlerts" "2 < length staticAlerts"
    and i: "id_ui (staticAlerts ! 0) = ''leak-001''"
    and r: "resolved (staticAlerts ! 0) = False" "resolved (staticAlerts ! 2) = True"
    by (simp_all add: staticAlerts_def)
  have b: "resolved (resolveAlert staticAlerts ''leak-001'' ! 0)
           \<and> acknowledged (resolveAlert staticAlerts ''leak-001'' ! 0)"
    using t [THEN conjunct2, THEN conjunct1, rule_format, OF l(1) i] .
  note c = t [THEN conjunct2, THEN conjunct2, THEN conjunct1, rule_format]
  have c0: "resolved (acknowledgeAlert staticAlerts ''leak-001'' ! 0) = False"
    using c [OF l(1), THEN conjunct1] r(1) by (rule trans)
  have c2: "resolved (acknowledgeAlert staticAlerts ''leak-001'' ! 2) = True"
    using c [OF l(2), THEN conjunct1] r(2) by (rule trans)
  have c1: "acknowledged (acknowledgeAlert staticAlerts ''leak-001'' ! 0)"
    using c [OF l(1), THEN conjunct2, rule_format, OF i] .
  from b c0 c1 c2 show ?thesis by (intro conjI) (erule conjunct1 conjunct2 | assumption)+
qed

text \<open>
  C3 as stated fails on \<open>createAlert\<close>: handed an alert that is resolved and not
  acknowledged, either revision inserts it as it is, and the row it returns is resolved
  and not acknowledged.
\<close>

theorem createAlert_keeps_callers_flags:
  "resolved_al resolvedUnacknowledged \<and> \<not> acknowledged_al resolvedUnacknowledged
   \<and> calls (snd (createAlert (Some exampleClient) resolvedUnacknowledged exampleWorld))
       = [InsertAlert [resolvedUnacknowledged] True]
   \<and> fst (createAlert (Some exampleClient) resolvedUnacknowledged exampleWorld)
       = Inr (Some (alert_input.extend resolvedUnacknowledged (alert.fields ''a1'')))
   \<and> calls (snd (createAlert_v1 exampleClient resolvedUnacknowledged exampleWorld))
       = [InsertAlert [resolvedUnacknowledged] False]
   \<and> fst (createAlert_v1 exampleClient resolvedUnacknowledged exampleWorld)
       = Inr (Some (alert_input.extend resolvedUnacknowledged (alert.fields ''a1'')))
   \<and> resolved_al (alert_input.extend resolvedUnacknowledged (alert.fields ''a1''))
   \<and> \<not> acknowledged_al (alert_input.extend resolvedUnacknowledged (alert.fields ''a1''))"
proof -
  have f: "resolved_al resolvedUnacknowledged" "\<not> acknowledged_al resolvedUnacknowledged"
    by (simp_all add: resolvedUnacknowledged_def)
  have r: "resolved_al (alert_input.extend resolvedUnacknowledged (alert.fields ''a1''))"
    "\<not> acknowledged_al (alert_input.extend resolvedUnacknowledged (alert.fields ''a1''))"
    by (simp_all add: resolvedUnacknowledged_def alert_input.defs alert.defs)
  have i: "insert_alerts_single exampleClient [al] s
             = (ok (alert_input.extend al (alert.fields ''a1'')), Suc s)"
    "insert_alerts exampleClient [al] s
             = (ok [alert_input.extend al (alert.fields ''a1'')], Suc s)" for al s
    by (simp_all add: exampleClient_def)
  have c2: "calls (snd (createAlert (Some exampleClient) resolvedUnacknowledged exampleWorld))
       = [InsertAlert [resolvedUnacknowledged] True]"
    by (simp add: createAlert_def invoke_eq split_beta exampleWorld_def)
  have c1: "calls (snd (createAlert_v1 exampleClient resolvedUnacknowledged exampleWorld))
       = [InsertAlert [resolvedUnacknowledged] False]"
    by (simp add: createAlert_v1_def invoke_eq split_beta exampleWorld_def)
  have v2: "fst (createAlert (Some exampleClient) resolvedUnacknowledged exampleWorld)
       = Inr (Some (alert_input.extend resolvedUnacknowledged (alert.fields ''a1'')))"
    by (simp add: createAlert_def invoke_eq split_beta i throwOrData_def ok_def)
  have v1: "fst (createAlert_v1 exampleClient resolvedUnacknowledged exampleWorld)
       = Inr (Some (alert_input.extend resolvedUnacknowledged (alert.fields ''a1'')))"
    by (simp add: createAlert_v1_def invoke_eq split_beta i throwOrFirst_def first_def ok_def)
  from f c2 v2 c1 v1 r show ?thesis by (intro conjI)
qed

section \<open>The wrappers of the revision without the guard\<close>

lemma throwOrData_iff:
  "isl (throwOrData r) \<longleftrightarrow> error r \<noteq> None"
  "error r = Some e \<Longrightarrow> throwOrData r = Inl (Thrown e)"
  "error r = None \<Longrightarrow> throwOrData r = Inr (data r)"
  by (simp_all add: throwOrData_def split: option.splits)

lemma throwOrFirst_iff:
  "isl (throwOrFirst r) \<longleftrightarrow> error r \<noteq> None \<or> data r = None"
  "error r = Some e \<Longrightarrow> throwOrFirst r = Inl (Thrown e)"
  "error r = None \<Longrightarrow> data r = Some rows \<Longrightarrow> throwOrFirst r = Inr (case rows of [] \<Rightarrow> None | x # _ \<Rightarrow> Some x)"
  "error r = None \<Longrightarrow> data r = None \<Longrightarrow> throwOrFirst r = Inl TypeError"
  by (simp_all add: throwOrFirst_def first_def split: option.splits list.splits)

lemma readers_v1:
  "getLatestSensorReadings_v1 sb w =
     (throwOrData (fst (select_sensor_readings sb latestReadingsQuery (backend w))),
      w\<lparr> backend := snd (select_sensor_readings sb latestReadingsQuery (backend w)),
         calls := calls w @ [Select latestReadingsQuery] \<rparr>)"
  "getSensorReadingsByType_v1 sb sensorType w =
     (throwOrData (fst (select_sensor_readings sb (readingsByTypeQuery sensorType) (backend w))),
      w\<lparr> backend := snd (select_sensor_readings sb (readingsByTypeQuery sensorType) (backend w)),
         calls := calls w @ [Select (readingsByTypeQuery sensorType)] \<rparr>)"
  "getComplaints_v1 sb w =
     (throwOrData (fst (select_complaints sb complaintsQuery (backend w))),
      w\<lparr> backend := snd (select_complaints sb complaintsQuery (backend w)),
         calls := calls w @ [Select complaintsQuery] \<rparr>)"
  "getMaintenanceTasks_v1 sb w =
     (throwOrData (fst (select_maintenance_tasks sb maintenanceTasksQuery (backend w))),
      w\<lparr> backend := snd (select_maintenance_tasks sb maintenanceTasksQuery (backend w)),
         calls := calls w @ [Select maintenanceTasksQuery] \<rparr>)"
  "getAlerts_v1 sb w =
     (throwOrData (fst (select_alerts sb alertsQuery (backend w))),
      w\<lparr> backend := snd (select_alerts sb alertsQuery (backend w)),
         calls := calls w @ [Select alertsQuery] \<rparr>)"
  by (simp_all add: getLatestSensorReadings_v1_def getSensorReadingsByType_v1_def
      getComplaints_v1_def getMaintenanceTasks_v1_def getAlerts_v1_def invoke_eq)

lemma writers_v1:
  "fst (insertSensorReading_v1 sb reading w)
     = throwOrFirst (fst (insert_sensor_readings sb [reading] (backend w)))"
  "fst (submitComplaint_v1 env sb complaint w)
     = throwOrFirst (fst (insert_complaints sb
         [complaint_input.extend complaint
            (complaint_insert.fields (toISOString env (int (clock env (clock_reads w)))))]
         (backend w)))"
  "fst (updateComplaintStatus_v1 env sb cid st assignedTo w)
     = throwOrFirst (fst (update_complaints sb
         (fst (complaintStatusUpdateData_v1 env st assignedTo w)) cid (backend w)))"
  "fst (createMaintenanceTask_v1 sb mt w)
     = throwOrFirst (fst (insert_maintenance_tasks sb [mt] (backend w)))"
  "fst (completeMaintenanceTask_v1 env sb tid w)
     = throwOrFirst (fst (update_maintenance_tasks sb
         (emptyTaskUpdate\<lparr> status_tu := Some ''completed'',
             completed_at_tu := Some (toISOString env (int (clock env (clock_reads w)))) \<rparr>)
         tid (backend w)))"
  "fst (createAlert_v1 sb al w) = throwOrFirst (fst (insert_alerts sb [al] (backend w)))"
  "fst (acknowledgeAlert_v1 sb aid w)
     = throwOrFirst (fst (update_alerts sb acknowledgeUpdateData_v1 aid (backend w)))"
  "fst (resolveAlert_v1 sb aid w)
     = throwOrFirst (fst (update_alerts sb resolveUpdateData_v1 aid (backend w)))"
  by (simp_all add: insertSensorReading_v1_def submitComplaint_v1_def updateComplaintStatus_v1_def
      createMaintenanceTask_v1_def completeMaintenanceTask_v1_def createAlert_v1_def
      acknowledgeAlert_v1_def resolveAlert_v1_def complaintStatusUpdateData_v1_def
      invoke_eq dateNow_def Let_def split_beta)

lemma others_v1:
  "fst (getConsumptionAnalytics_v1 env sb days w)
     = (case dateToISOString env (cutoffTime env (clock env (clock_reads w)) days) of
          Inl e \<Rightarrow> Inl e
        | Inr since \<Rightarrow>
            throwOrData (fst (select_sensor_readings sb (consumptionQuery since) (backend w))))"
  "fst (getSystemHealth_v1 sb w)
     = (case error (fst (select_sensor_readings sb healthQuery (backend w))) of
          Some e \<Rightarrow> Inl (Thrown e)
        | None \<Rightarrow>
            (case data (fst (select_sensor_readings sb healthQuery (backend w))) of
               None \<Rightarrow> Inl TypeError
             | Some rows \<Rightarrow> Inr (systemHealthOf rows)))"
  "fst (subscribeTo_v1 sb table w)
     = RealtimeChannel (fst (channel_subscribe sb (table @ ''_changes'') table (backend w)))"
  by (simp_all add: getConsumptionAnalytics_v1_def getSystemHealth_v1_def subscribeTo_v1_def
      invoke_eq dateNow_def split_beta split: sum.splits option.splits)

lemma writers_v1_calls:
  "newCalls w (snd (insertSensorReading_v1 sb reading w)) = [InsertSensorReading [reading] False]"
  "newCalls w (snd (submitComplaint_v1 env sb complaint w))
     = [InsertComplaint [complaint_input.extend complaint
          (complaint_insert.fields (toISOString env (int (clock env (clock_reads w)))))] False]"
  "newCalls w (snd (createMaintenanceTask_v1 sb mt w)) = [InsertMaintenanceTask [mt] False]"
  "newCalls w (snd (completeMaintenanceTask_v1 env sb tid w))
     = [UpdateMaintenanceTask
          (emptyTaskUpdate\<lparr> status_tu := Some ''completed'',
             completed_at_tu := Some (toISOString env (int (clock env (clock_reads w)))) \<rparr>) tid False]"
  "newCalls w (snd (createAlert_v1 sb al w)) = [InsertAlert [al] False]"
  "newCalls w (snd (subscribeTo_v1 sb table w)) = [ChannelSubscribe (table @ ''_changes'') table]"
  "newCalls w (snd (getSystemHealth_v1 sb w)) = [Select healthQuery]"
  by (simp_all add: insertSensorReading_v1_def submitComplaint_v1_def
      createMaintenanceTask_v1_def completeMaintenanceTask_v1_def createAlert_v1_def
      subscribeTo_v1_def getSystemHealth_v1_def newCalls_def
      invoke_eq dateNow_def Let_def split_beta split: option.splits)

lemma passesThrough_throwOrData: "passesThrough r (throwOrData r)"
  by (simp add: passesThrough_def throwOrData_def split: option.splits)

lemma passesFirstRow_throwOrFirst: "passesFirstRow r (throwOrFirst r)"
  by (simp add: passesFirstRow_def throwOrFirst_def first_def split: option.splits list.splits)

lemma updateComplaintStatus_v1_calls:
  "newCalls w (snd (updateComplaintStatus_v1 env sb cid st assignedTo w))
     = [UpdateComplaint (fst (complaintStatusUpdateData_v1 env st assignedTo w)) cid False]"
proof -
  obtain u w1 where e: "complaintStatusUpdateData_v1 env st assignedTo w = (u, w1)"
    by (cases "complaintStatusUpdateData_v1 env st assignedTo w")
  with complaintStatusUpdateData_calls(2) [of env st assignedTo w]
  have "calls w1 = calls w" by simp
  then show ?thesis
    by (simp add: e updateComplaintStatus_v1_def invoke_eq newCalls_def split_beta)
qed

text \<open>
  C5, as the code has it, for the revision without the guard. Every wrapper makes exactly
  one call on the client (the call is named for each of the sixteen) and throws the error
  of that call if it returns one. When the call returns
  no error: the five list readers and \<open>getConsumptionAnalytics\<close> return \<open>data\<close> as it is;
  the eight wrappers around an insert or update return \<open>data[0]\<close> (a TypeError when \<open>data\<close>
  is \<open>null\<close>); \<open>getSystemHealth\<close> returns the reduction of \<open>data\<close> to one status per sensor
  type (a TypeError when \<open>data\<close> is \<open>null\<close>). \<open>getConsumptionAnalytics\<close> throws a
  RangeError, before any call, when the date it computes (in double arithmetic) is out of
  range. \<open>subscribeTo\<close>
  returns the client's channel and does not throw.
\<close>

theorem wrappers_v1_contract:
  "passesThrough (fst (select_sensor_readings sb latestReadingsQuery (backend w)))
      (fst (getLatestSensorReadings_v1 sb w))
   \<and> newCalls w (snd (getLatestSensorReadings_v1 sb w)) = [Select latestReadingsQuery]
   \<and> passesThrough (fst (select_sensor_readings sb (readingsByTypeQuery sensorType) (backend w)))
      (fst (getSensorReadingsByType_v1 sb sensorType w))
   \<and> newCalls w (snd (getSensorReadingsByType_v1 sb sensorType w)) = [Select (readingsByTypeQuery sensorType)]
   \<and> passesThrough (fst (select_complaints sb complaintsQuery (backend w))) (fst (getComplaints_v1 sb w))
   \<and> newCalls w (snd (getComplaints_v1 sb w)) = [Select complaintsQuery]
   \<and> passesThrough (fst (select_maintenance_tasks sb maintenanceTasksQuery (backend w)))
      (fst (getMaintenanceTasks_v1 sb w))
   \<and> newCalls w (snd (getMaintenanceTasks_v1 sb w)) = [Select maintenanceTasksQuery]
   \<and> passesThrough (fst (select_alerts sb alertsQuery (backend w))) (fst (getAlerts_v1 sb w))
   \<and> newCalls w (snd (getAlerts_v1 sb w)) = [Select alertsQuery]
   \<and> passesFirstRow (fst (insert_sensor_readings sb [reading] (backend w)))
      (fst (insertSensorReading_v1 sb reading w))
   \<and> newCalls w (snd (insertSensorReading_v1 sb reading w)) = [InsertSensorReading [reading] False]
   \<and> passesFirstRow (fst (insert_complaints sb
         [complaint_input.extend complaint
            (complaint_insert.fields (toISOString env (int (clock env (clock_reads w)))))] (backend w)))
      (fst (submitComplaint_v1 env sb complaint w))
   \<and> newCalls w (snd (submitComplaint_v1 env sb complaint w))
        = [InsertComplaint [complaint_input.extend complaint
             (complaint_insert.fields (toISOString env (int (clock env (clock_reads w)))))] False]
   \<and> passesFirstRow (fst (update_complaints sb
         (fst (complaintStatusUpdateData_v1 env st assignedTo w)) cid (backend w)))
      (fst (updateComplaintStatus_v1 env sb cid st assignedTo w))
   \<and> newCalls w (snd (updateComplaintStatus_v1 env sb cid st assignedTo w))
        = [UpdateComplaint (fst (complaintStatusUpdateData_v1 env st assignedTo w)) cid False]
   \<and> passesFirstRow (fst (insert_maintenance_tasks sb [mt] (backend w)))
      (fst (createMaintenanceTask_v1 sb mt w))
   \<and> newCalls w (snd (createMaintenanceTask_v1 sb mt w)) = [InsertMaintenanceTask [mt] False]
   \<and> passesFirstRow (fst (update_maintenance_tasks sb
         (emptyTaskUpdate\<lparr> status_tu := Some ''completed'',
             completed_at_tu := Some (toISOString env (int (clock env (clock_reads w)))) \<rparr>)
         tid (backend w)))
      (fst (completeMaintenanceTask_v1 env sb tid w))
   \<and> newCalls w (snd (completeMaintenanceTask_v1 env sb tid w))
        = [UpdateMaintenanceTask
             (emptyTaskUpdate\<lparr> status_tu := Some ''completed'',
                completed_at_tu := Some (toISOString env (int (clock env (clock_reads w)))) \<rparr>) tid False]
   \<and> passesFirstRow (fst (insert_alerts sb [al] (backend w))) (fst (createAlert_v1 sb al w))
   \<and> newCalls w (snd (createAlert_v1 sb al w)) = [InsertAlert [al] False]
   \<and> passesFirstRow (fst (update_alerts sb acknowledgeUpdateData_v1 aid (backend w)))
      (fst (acknowledgeAlert_v1 sb aid w))
   \<and> newCalls w (snd (acknowledgeAlert_v1 sb aid w)) = [UpdateAlert acknowledgeUpdateData_v1 aid False]
   \<and> passesFirstRow (fst (update_alerts sb resolveUpdateData_v1 aid (backend w)))
      (fst (resolveAlert_v1 sb aid w))
   \<and> newCalls w (snd (resolveAlert_v1 sb aid w)) = [UpdateAlert resolveUpdateData_v1 aid False]
   \<and> (case dateToISOString env (cutoffTime env (clock env (clock_reads w)) days) of
         Inl e \<Rightarrow> fst (getConsumptionAnalytics_v1 env sb days w) = Inl RangeError
                 \<and> newCalls w (snd (getConsumptionAnalytics_v1 env sb days w)) = []
       | Inr since \<Rightarrow>
           passesThrough (fst (select_sensor_readings sb (consumptionQuery since) (backend w)))
             (fst (getConsumptionAnalytics_v1 env sb days w))
           \<and> newCalls w (snd (getConsumptionAnalytics_v1 env sb days w)) = [Select (consumptionQuery since)])
   \<and> (case error (fst (select_sensor_readings sb healthQuery (backend w))) of
         Some e \<Rightarrow> fst (getSystemHealth_v1 sb w) = Inl (Thrown e)
       | None \<Rightarrow>
           (case data (fst (select_sensor_readings sb healthQuery (backend w))) of
              None \<Rightarrow> fst (getSystemHealth_v1 sb w) = Inl TypeError
            | Some rows \<Rightarrow> fst (getSystemHealth_v1 sb w) = Inr (systemHealthOf rows)))
   \<and> newCalls w (snd (getSystemHealth_v1 sb w)) = [Select healthQuery]
   \<and> fst (subscribeTo_v1 sb table w)
        = RealtimeChannel (fst (channel_subscribe sb (table @ ''_changes'') table (backend w)))
   \<and> newCalls w (snd (subscribeTo_v1 sb table w)) = [ChannelSubscribe (table @ ''_changes'') table]"
proof -
  have c: "case dateToISOString env (cutoffTime env (clock env (clock_reads w)) days) of
         Inl e \<Rightarrow> fst (getConsumptionAnalytics_v1 env sb days w) = Inl RangeError
                 \<and> newCalls w (snd (getConsumptionAnalytics_v1 env sb days w)) = []
       | Inr since \<Rightarrow>
           passesThrough (fst (select_sensor_readings sb (consumptionQuery since) (backend w)))
             (fst (getConsumptionAnalytics_v1 env sb days w))
           \<and> newCalls w (snd (getConsumptionAnalytics_v1 env sb days w)) = [Select (consumptionQuery since)]"
    by (auto simp add: getConsumptionAnalytics_v1_def invoke_eq dateNow_def split_beta newCalls_def
        passesThrough_throwOrData dateToISOString_def split: sum.splits)
  have h: "case error (fst (select_sensor_readings sb healthQuery (backend w))) of
         Some e \<Rightarrow> fst (getSystemHealth_v1 sb w) = Inl (Thrown e)
       | None \<Rightarrow>
           (case data (fst (select_sensor_readings sb healthQuery (backend w))) of
              None \<Rightarrow> fst (getSystemHealth_v1 sb w) = Inl TypeError
            | Some rows \<Rightarrow> fst (getSystemHealth_v1 sb w) = Inr (systemHealthOf rows))"
    by (simp add: others_v1 split: option.splits)
  show ?thesis
    apply (intro conjI)
    apply (simp_all only: readers_v1 writers_v1 writers_v1_calls fst_conv snd_conv
        passesThrough_throwOrData passesFirstRow_throwOrFirst others_v1(3) c h
        updateComplaintStatus_v1_calls alert_v1_calls)
    apply (simp_all add: newCalls_def)
    done
qed

theorem wrappers_v1_contract_witness:
  "fst (getLatestSensorReadings_v1 exampleClient exampleWorld) = Inr (Some exampleRows)
   \<and> fst (updateComplaintStatus_v1 exampleEnv exampleClient ''c1'' ''resolved'' None exampleWorld)
       = Inl (Thrown (PgError ''update refused''))"
proof -
  note t = wrappers_v1_contract [where sb = exampleClient and w = exampleWorld
      and env = exampleEnv and st = "''resolved''" and assignedTo = None and cid = "''c1''"]
  have a: "passesThrough (fst (select_sensor_readings exampleClient latestReadingsQuery (backend exampleWorld)))
      (fst (getLatestSensorReadings_v1 exampleClient exampleWorld))"
    using t by blast
  have b: "passesFirstRow (fst (update_complaints exampleClient
         (fst (complaintStatusUpdateData_v1 exampleEnv ''resolved'' None exampleWorld)) ''c1''
         (backend exampleWorld)))
      (fst (updateComplaintStatus_v1 exampleEnv exampleClient ''c1'' ''resolved'' None exampleWorld))"
    using t by blast
  from a have "fst (getLatestSensorReadings_v1 exampleClient exampleWorld) = Inr (Some exampleRows)"
    by (simp add: passesThrough_def exampleClient_def ok_def)
  moreover from b have "fst (updateComplaintStatus_v1 exampleEnv exampleClient ''c1'' ''resolved'' None exampleWorld)
       = Inl (Thrown (PgError ''update refused''))"
    by (simp add: passesFirstRow_def exampleClient_def failed_def)
  ultimately show ?thesis by blast
qed

text \<open>
  C5 as stated fails on \<open>getSystemHealth\<close>: the backend returns no error, and the wrapper
  returns the same object for two different lists of rows, so what it returns is not the
  backend's data.
\<close>

theorem getSystemHealth_not_pass_through:
  "take 2 exampleRows \<noteq> exampleRows
   \<and> error (fst (select_sensor_readings exampleClient healthQuery (backend exampleWorld))) = None
   \<and> data (fst (select_sensor_readings exampleClient healthQuery (backend exampleWorld))) = Some exampleRows
   \<and> data (fst (select_sensor_readings
         (exampleClient\<lparr> select_sensor_readings := (\<lambda>q s. (ok (take 2 exampleRows), Suc s)) \<rparr>)
         healthQuery (backend exampleWorld))) = Some (take 2 exampleRows)
   \<and> fst (getSystemHealth_v1 exampleClient exampleWorld)
       = fst (getSystemHealth_v1
               (exampleClient\<lparr> select_sensor_readings := (\<lambda>q s. (ok (take 2 exampleRows), Suc s)) \<rparr>)
               exampleWorld)"
proof -
  have "systemHealthOf exampleRows = systemHealthOf (take 2 exampleRows)"
    by (rule ext) (simp add: systemHealthOf_find exampleRows_def exampleReading_def)
  then show ?thesis
    by (simp add: others_v1 exampleClient_def ok_def exampleRows_def)
qed

section \<open>The simulated insertion of sensor readings\<close>










section \<open>Photo uploads of submitComplaint\<close>

lemma uploadComplaintPhoto_world:
  "console (snd (uploadComplaintPhoto env (Some sb) p cid w)) = console w"
  "\<exists>path. calls (snd (uploadComplaintPhoto env (Some sb) p cid w))
            = calls w @ [StorageUpload ''complaint_photos'' path p]"
  by (simp_all add: uploadComplaintPhoto_def invoke_eq dateNow_def Let_def split_beta
      split: option.splits)

lemma uploadOutcomes_length: "length (uploadOutcomes env sb cd ps w) = length ps"
  by (induction ps arbitrary: w) (simp_all split: prod.splits sum.splits)

lemma uploadComplaintPhotos_urls:
  "fst (uploadComplaintPhotos env sb cd ps acc w) = acc @ urlsOf (uploadOutcomes env sb cd ps w)"
  by (induction ps arbitrary: acc w) (simp_all split: prod.splits sum.splits)

lemma uploadComplaintPhotos_console:
  "console (snd (uploadComplaintPhotos env (Some sb) (Some cd) ps acc w))
     = console w @ map (ErrorLog ''Failed to upload photo:'')
                       (errorsOf (uploadOutcomes env (Some sb) (Some cd) ps w))"
proof (induction ps arbitrary: acc w)
  case Nil
  then show ?case by simp
next
  case (Cons p ps)
  obtain res w' where u: "uploadComplaintPhoto env (Some sb) p (id_c cd) w = (res, w')"
    by (cases "uploadComplaintPhoto env (Some sb) p (id_c cd) w")
  with uploadComplaintPhoto_world(1) [of env sb p "id_c cd" w] have c: "console w' = console w"
    by simp
  show ?case
    by (cases res) (simp_all add: u Cons.IH c consoleError_def)
qed

lemma uploadComplaintPhotos_calls:
  "\<exists>U. calls (snd (uploadComplaintPhotos env (Some sb) (Some cd) ps acc w)) = calls w @ U
        \<and> map uploadedFile U = map (\<lambda>p. Some (''complaint_photos'', p)) ps"
proof (induction ps arbitrary: acc w)
  case Nil
  then show ?case by simp
next
  case (Cons p ps)
  obtain res w' where u: "uploadComplaintPhoto env (Some sb) p (id_c cd) w = (res, w')"
    by (cases "uploadComplaintPhoto env (Some sb) p (id_c cd) w")
  with uploadComplaintPhoto_world(2) [of env sb p "id_c cd" w]
  obtain path where c: "calls w' = calls w @ [StorageUpload ''complaint_photos'' path p]"
    by auto
  show ?case
  proof (cases res)
    case (Inl e)
    from Cons.IH [of acc "consoleError ''Failed to upload photo:'' e w'"]
    obtain U where "calls (snd (uploadComplaintPhotos env (Some sb) (Some cd) ps acc
                       (consoleError ''Failed to upload photo:'' e w')))
                     = calls (consoleError ''Failed to upload photo:'' e w') @ U"
      and "map uploadedFile U = map (\<lambda>p. Some (''complaint_photos'', p)) ps" by blast
    then show ?thesis
      by (intro exI [of _ "StorageUpload ''complaint_photos'' path p # U"])
         (simp add: u Inl c consoleError_def)
  next
    case (Inr url)
    from Cons.IH [of "acc @ [url]" w']
    obtain U where "calls (snd (uploadComplaintPhotos env (Some sb) (Some cd) ps (acc @ [url]) w'))
                     = calls w' @ U"
      and "map uploadedFile U = map (\<lambda>p. Some (''complaint_photos'', p)) ps" by blast
    then show ?thesis
      by (intro exI [of _ "StorageUpload ''complaint_photos'' path p # U"])
         (simp add: u Inr c)
  qed
qed

lemma uploadComplaintPhotos_newCalls:
  "map uploadedFile (newCalls w (snd (uploadComplaintPhotos env (Some sb) (Some cd) ps acc w)))
     = map (\<lambda>p. Some (''complaint_photos'', p)) ps"
  using uploadComplaintPhotos_calls [of env sb cd ps acc w] by (auto simp: newCalls_def)

lemma uploadComplaintPhotos_calls_prefix:
  "calls (snd (uploadComplaintPhotos env (Some sb) (Some cd) ps acc w))
     = calls w @ newCalls w (snd (uploadComplaintPhotos env (Some sb) (Some cd) ps acc w))"
  using uploadComplaintPhotos_calls [of env sb cd ps acc w] by (auto simp: newCalls_def)

lemma afterInsert_world:
  "console (afterInsert env sb complaint w) = console w"
  "calls (afterInsert env sb complaint w) = calls w @ [InsertComplaint [complaintRow env complaint w] True]"
  by (simp_all add: afterInsert_def invoke_eq dateNow_def)

lemma submitComplaint_after_insert:
  assumes "ps \<noteq> []"
    and "error (fst (insert_complaints_single sb [complaintRow env complaint w] (backend w))) = None"
    and "data (fst (insert_complaints_single sb [complaintRow env complaint w] (backend w))) = Some cd"
  shows "submitComplaint env (Some sb) complaint (Some ps) w
     = (let w2 = afterInsert env sb complaint w;
            photoUrls = fst (uploadComplaintPhotos env (Some sb) (Some cd) ps [] w2);
            w3 = snd (uploadComplaintPhotos env (Some sb) (Some cd) ps [] w2);
            u = emptyComplaintUpdate\<lparr> photo_urls_cu := Some photoUrls \<rparr>
        in if photoUrls = [] then (Inr (Some cd), w3)
           else (throwOrData (fst (update_complaints_single sb u (id_c cd) (backend w3))),
                 w3\<lparr> backend := snd (update_complaints_single sb u (id_c cd) (backend w3)),
                     calls := calls w3 @ [UpdateComplaint u (id_c cd) True] \<rparr>))"
  using assms
  by (simp add: submitComplaint_def complaintRow_def afterInsert_def invoke_eq dateNow_def
      split_beta Let_def)

text \<open>
  C2, as the code has it. Let the insert of \<open>submitComplaint\<close> succeed with the row \<open>cd\<close>
  and let the photo list be non-empty. Every photo is tried once, in order; every failed
  upload is caught and logged with \<open>console.error('Failed to upload photo:', error)\<close> and
  nothing else is logged. After the insert the only calls are these uploads and, when at
  least one upload succeeded, one update of \<open>photo_urls\<close> to exactly the URLs of the
  successful uploads: the inserted row is never deleted. When no upload succeeded the
  function returns the inserted row; otherwise it returns what the update returns, and
  throws only if the update itself returns an error. An upload error is never thrown.
\<close>

theorem submitComplaint_photo_failures:
  assumes ph: "ps \<noteq> []"
    and e: "error (fst (insert_complaints_single sb [complaintRow env complaint w] (backend w))) = None"
    and d: "data (fst (insert_complaints_single sb [complaintRow env complaint w] (backend w))) = Some cd"
  shows "let w2 = afterInsert env sb complaint w;
             outs = uploadOutcomes env (Some sb) (Some cd) ps w2;
             w3 = snd (uploadComplaintPhotos env (Some sb) (Some cd) ps [] w2);
             u = emptyComplaintUpdate\<lparr> photo_urls_cu := Some (urlsOf outs) \<rparr>;
             res = submitComplaint env (Some sb) complaint (Some ps) w
         in length outs = length ps
            \<and> console (snd res)
                = console w @ map (ErrorLog ''Failed to upload photo:'') (errorsOf outs)
            \<and> map uploadedFile (newCalls w2 w3) = map (\<lambda>p. Some (''complaint_photos'', p)) ps
            \<and> (if urlsOf outs = []
                then fst res = Inr (Some cd)
                     \<and> newCalls w (snd res)
                         = InsertComplaint [complaintRow env complaint w] True # newCalls w2 w3
                else passesThrough (fst (update_complaints_single sb u (id_c cd) (backend w3))) (fst res)
                     \<and> newCalls w (snd res)
                         = InsertComplaint [complaintRow env complaint w] True # newCalls w2 w3
                           @ [UpdateComplaint u (id_c cd) True])"
proof -
  define w2 where "w2 = afterInsert env sb complaint w"
  define outs where "outs = uploadOutcomes env (Some sb) (Some cd) ps w2"
  define w3 where "w3 = snd (uploadComplaintPhotos env (Some sb) (Some cd) ps [] w2)"
  define u where "u = emptyComplaintUpdate\<lparr> photo_urls_cu := Some (urlsOf outs) \<rparr>"
  define res where "res = submitComplaint env (Some sb) complaint (Some ps) w"
  have urls: "fst (uploadComplaintPhotos env (Some sb) (Some cd) ps [] w2) = urlsOf outs"
    by (simp add: uploadComplaintPhotos_urls outs_def)
  have r: "res = (if urlsOf outs = [] then (Inr (Some cd), w3)
           else (throwOrData (fst (update_complaints_single sb u (id_c cd) (backend w3))),
                 w3\<lparr> backend := snd (update_complaints_single sb u (id_c cd) (backend w3)),
                     calls := calls w3 @ [UpdateComplaint u (id_c cd) True] \<rparr>))"
    unfolding res_def submitComplaint_after_insert [OF ph e d] Let_def
    by (simp only: urls w2_def [symmetric] w3_def [symmetric] u_def [symmetric])
  have c3: "console w3 = console w @ map (ErrorLog ''Failed to upload photo:'') (errorsOf outs)"
    by (simp add: w3_def outs_def uploadComplaintPhotos_console w2_def afterInsert_world)
  have k3: "calls w3 = calls w @ InsertComplaint [complaintRow env complaint w] True # newCalls w2 w3"
    using uploadComplaintPhotos_calls_prefix [of env sb cd ps "[]" w2]
    by (simp add: w3_def [symmetric]) (simp add: w2_def afterInsert_world)
  have 1: "length outs = length ps" by (simp add: outs_def uploadOutcomes_length)
  have 2: "console (snd res) = console w @ map (ErrorLog ''Failed to upload photo:'') (errorsOf outs)"
    by (simp add: r c3)
  have 3: "map uploadedFile (newCalls w2 w3) = map (\<lambda>p. Some (''complaint_photos'', p)) ps"
    by (simp add: w3_def uploadComplaintPhotos_newCalls)
  have 4: "if urlsOf outs = []
           then fst res = Inr (Some cd)
                \<and> newCalls w (snd res)
                    = InsertComplaint [complaintRow env complaint w] True # newCalls w2 w3
           else passesThrough (fst (update_complaints_single sb u (id_c cd) (backend w3))) (fst res)
                \<and> newCalls w (snd res)
                    = InsertComplaint [complaintRow env complaint w] True # newCalls w2 w3
                      @ [UpdateComplaint u (id_c cd) True]"
  proof (cases "urlsOf outs = []")
    case True
    then show ?thesis by (simp add: r newCalls_append [OF k3])
  next
    case False
    have "calls (snd res) = calls w @ (InsertComplaint [complaintRow env complaint w] True # newCalls w2 w3
                      @ [UpdateComplaint u (id_c cd) True])"
      using False by (simp add: r k3)
    then have "newCalls w (snd res) = InsertComplaint [complaintRow env complaint w] True # newCalls w2 w3
                      @ [UpdateComplaint u (id_c cd) True]"
      by (rule newCalls_append)
    moreover have "passesThrough (fst (update_complaints_single sb u (id_c cd) (backend w3))) (fst res)"
      using False by (simp add: r passesThrough_def throwOrData_def split: option.splits)
    ultimately show ?thesis using False by simp
  qed
  from 1 2 3 4 show ?thesis
    unfolding Let_def w2_def [symmetric] outs_def [symmetric] w3_def [symmetric] u_def [symmetric]
      res_def [symmetric]
    by (intro conjI)
qed

lemma example_insert:
  "error (fst (insert_complaints_single exampleClient
      [complaintRow exampleEnv exampleComplaint exampleWorld] (backend exampleWorld))) = None"
  "data (fst (insert_complaints_single exampleClient
      [complaintRow exampleEnv exampleComplaint exampleWorld] (backend exampleWorld))) = Some exampleInserted"
  by (simp_all add: exampleClient_def ok_def exampleInserted_def)

lemma example_upload:
  "fst (uploadComplaintPhoto exampleEnv (Some exampleClient) badPhoto cid w)
     = Inl (Thrown (PgError ''upload refused''))"
  "isl (fst (uploadComplaintPhoto exampleEnv (Some exampleClient) okPhoto cid w)) = False"
  by (simp_all add: uploadComplaintPhoto_def invoke_eq dateNow_def Let_def split_beta
      exampleClient_def failed_def ok_def badPhoto_def okPhoto_def)

lemma example_outcomes_bad:
  "uploadOutcomes exampleEnv (Some exampleClient) (Some cd) [badPhoto] w
     = [Inl (Thrown (PgError ''upload refused''))]"
proof -
  obtain res w' where u: "uploadComplaintPhoto exampleEnv (Some exampleClient) badPhoto (id_c cd) w = (res, w')"
    by (cases "uploadComplaintPhoto exampleEnv (Some exampleClient) badPhoto (id_c cd) w")
  with example_upload(1) [of "id_c cd" w] have "res = Inl (Thrown (PgError ''upload refused''))"
    by simp
  then show ?thesis by (simp add: u)
qed

lemma example_outcomes_ok_bad:
  "urlsOf (uploadOutcomes exampleEnv (Some exampleClient) (Some cd) [okPhoto, badPhoto] w) \<noteq> []"
  "errorsOf (uploadOutcomes exampleEnv (Some exampleClient) (Some cd) [okPhoto, badPhoto] w)
     = [Thrown (PgError ''upload refused'')]"
proof -
  obtain res w' where u: "uploadComplaintPhoto exampleEnv (Some exampleClient) okPhoto (id_c cd) w = (res, w')"
    by (cases "uploadComplaintPhoto exampleEnv (Some exampleClient) okPhoto (id_c cd) w")
  with example_upload(2) [of "id_c cd" w] obtain url where r: "res = Inr url"
    by (cases res) simp_all
  show "urlsOf (uploadOutcomes exampleEnv (Some exampleClient) (Some cd) [okPhoto, badPhoto] w) \<noteq> []"
    by (simp add: u r del: uploadOutcomes.simps(2)
        add: uploadOutcomes.simps(2) [of _ _ _ okPhoto])
  show "errorsOf (uploadOutcomes exampleEnv (Some exampleClient) (Some cd) [okPhoto, badPhoto] w)
     = [Thrown (PgError ''upload refused'')]"
    using example_outcomes_bad [of cd w']
    by (simp add: u r del: uploadOutcomes.simps(2)
        add: uploadOutcomes.simps(2) [of _ _ _ okPhoto])
qed

theorem submitComplaint_photo_failures_witness:
  "fst (submitComplaint exampleEnv (Some exampleClient) exampleComplaint (Some [badPhoto]) exampleWorld)
     = Inr (Some exampleInserted)
   \<and> console (snd (submitComplaint exampleEnv (Some exampleClient) exampleComplaint
                     (Some [badPhoto]) exampleWorld))
       = [ErrorLog ''Failed to upload photo:'' (Thrown (PgError ''upload refused''))]"
proof -
  have ph: "[badPhoto] \<noteq> []" by simp
  have o: "uploadOutcomes exampleEnv (Some exampleClient) (Some exampleInserted) [badPhoto]
             (afterInsert exampleEnv exampleClient exampleComplaint exampleWorld)
           = [Inl (Thrown (PgError ''upload refused''))]"
    by (rule example_outcomes_bad)
  have c: "console exampleWorld = []" by (simp add: exampleWorld_def)
  have f: "urlsOf [Inl (Thrown (PgError ''upload refused''))] = []"
    "errorsOf [Inl (Thrown (PgError ''upload refused''))] = [Thrown (PgError ''upload refused'')]"
    by simp_all
  note t = submitComplaint_photo_failures [OF ph example_insert, unfolded Let_def o f c if_True]
  have a: "fst (submitComplaint exampleEnv (Some exampleClient) exampleComplaint (Some [badPhoto]) exampleWorld)
     = Inr (Some exampleInserted)"
    using t [THEN conjunct2, THEN conjunct2, THEN conjunct2] by simp
  have b: "console (snd (submitComplaint exampleEnv (Some exampleClient) exampleComplaint
                     (Some [badPhoto]) exampleWorld))
       = [ErrorLog ''Failed to upload photo:'' (Thrown (PgError ''upload refused''))]"
    using t [THEN conjunct2, THEN conjunct1] by simp
  from a b show ?thesis by (rule conjI)
qed

text \<open>
  C2 as stated fails: the insert succeeds, the first photo is uploaded, the upload of the
  second photo fails, and the update of \<open>photo_urls\<close> that follows returns an error;
  \<open>submitComplaint\<close> then throws that error instead of returning the complaint.
\<close>

theorem submitComplaint_throws_after_failed_upload:
  "error (fst (insert_complaints_single exampleClient
      [complaintRow exampleEnv exampleComplaint exampleWorld] (backend exampleWorld))) = None
   \<and> errorsOf (uploadOutcomes exampleEnv (Some exampleClient) (Some exampleInserted)
         [okPhoto, badPhoto] (afterInsert exampleEnv exampleClient exampleComplaint exampleWorld))
       = [Thrown (PgError ''upload refused'')]
   \<and> fst (submitComplaint exampleEnv (Some exampleClient) exampleComplaint
            (Some [okPhoto, badPhoto]) exampleWorld)
       = Inl (Thrown (PgError ''update refused''))"
proof -
  have ph: "[okPhoto, badPhoto] \<noteq> []" by simp
  have u: "fst (update_complaints_single exampleClient upd cid s) = failed ''update refused''"
    for upd cid s
    by (simp add: exampleClient_def)
  have n: "fst (uploadComplaintPhotos exampleEnv (Some exampleClient) (Some exampleInserted)
         [okPhoto, badPhoto] [] (afterInsert exampleEnv exampleClient exampleComplaint exampleWorld)) \<noteq> []"
    by (simp only: uploadComplaintPhotos_urls append_Nil example_outcomes_ok_bad(1)) simp
  have "fst (submitComplaint exampleEnv (Some exampleClient) exampleComplaint
            (Some [okPhoto, badPhoto]) exampleWorld)
       = Inl (Thrown (PgError ''update refused''))"
    unfolding submitComplaint_after_insert [OF ph example_insert] Let_def
    using n by (simp add: u throwOrData_def failed_def)
  then show ?thesis
    using example_insert(1) example_outcomes_ok_bad(2) by (intro conjI)
qed

end
